theory Spec2Isabelle
  imports Complex_Main "HOL-Library.Word"
begin

section \<open>Road graph data model (routing/road_graph.hpp)\<close>

text \<open>
  \<open>m2::PointD\<close> is a pair of doubles; the coordinates are modelled as reals.
  \<open>feature::TAltitude\<close> is a signed integer number of metres.
\<close>

record PointD =
  px :: real
  py :: real

type_synonym TAltitude = int

definition kPointsEqualEpsilon :: real where
  "kPointsEqualEpsilon = 1 / 1000000"

text \<open>
  Modelled from the spec: \<open>my::AlmostEqualAbs\<close> on points (geometry/point2d.hpp and
  base/math.hpp are not among the sources). The spec speaks of equality under an absolute
  epsilon; it is taken coordinate by coordinate, \<open>|a - b| < eps\<close>.
\<close>

definition AlmostEqualAbs_point :: "PointD \<Rightarrow> PointD \<Rightarrow> real \<Rightarrow> bool" where
  "AlmostEqualAbs_point a b eps \<longleftrightarrow> \<bar>px a - px b\<bar> < eps \<and> \<bar>py a - py b\<bar> < eps"

text \<open>
  Modelled from the spec: \<open>m2::PointD::operator==\<close> (geometry/point2d.hpp is not among
  the sources). Section 3 of the spec: equality of points uses the absolute epsilon
  \<open>POINTS_EQUAL_EPSILON = 1e-6\<close>.
\<close>

definition PointD_eq :: "PointD \<Rightarrow> PointD \<Rightarrow> bool" where
  "PointD_eq a b \<longleftrightarrow> AlmostEqualAbs_point a b kPointsEqualEpsilon"

record Junction =
  m_point :: PointD
  m_altitude :: TAltitude

definition GetPoint :: "Junction \<Rightarrow> PointD" where
  "GetPoint j = m_point j"

definition GetAltitude :: "Junction \<Rightarrow> TAltitude" where
  "GetAltitude j = m_altitude j"

text \<open>\<open>Junction::operator==\<close>: \<open>return m_point == r.m_point;\<close>\<close>

definition Junction_eq :: "Junction \<Rightarrow> Junction \<Rightarrow> bool" where
  "Junction_eq l r \<longleftrightarrow> PointD_eq (m_point l) (m_point r)"

text \<open>\<open>Junction::operator!=\<close>: \<open>return !(*this == r);\<close>\<close>

definition Junction_neq :: "Junction \<Rightarrow> Junction \<Rightarrow> bool" where
  "Junction_neq l r \<longleftrightarrow> \<not> Junction_eq l r"

text \<open>The free function \<open>AlmostEqualAbs(Junction const &, Junction const &)\<close>.\<close>

definition AlmostEqualAbs :: "Junction \<Rightarrow> Junction \<Rightarrow> bool" where
  "AlmostEqualAbs lhs rhs \<longleftrightarrow>
     AlmostEqualAbs_point (GetPoint lhs) (GetPoint rhs) kPointsEqualEpsilon"

record RoadInfo =
  m_junctions :: "Junction list"
  m_speedKMPH :: real
  m_bidirectional :: bool

subsection \<open>The edge-loader helper\<close>

text \<open>
  \<open>ICrossEdgesLoader::ForEachEdge\<close> walks the polyline with an index and calls \<open>fn\<close>.
  The model returns the calls made, in order: each call is the triple of arguments
  (segment index, other junction, forward flag) handed to \<open>fn\<close>.
\<close>

type_synonym edge_call = "nat \<times> Junction \<times> bool"

function ForEachEdge_loop ::
  "Junction \<Rightarrow> Junction list \<Rightarrow> nat \<Rightarrow> edge_call list \<Rightarrow> edge_call list" where
  "ForEachEdge_loop m_cross js i calls =
     (if i < length js then
        (if \<not> AlmostEqualAbs_point (GetPoint m_cross) (GetPoint (js ! i)) kPointsEqualEpsilon
         then ForEachEdge_loop m_cross js (i + 1) calls
         else
           (let calls1 = (if i + 1 < length js
                          then calls @ [(i, js ! (i + 1), True)] else calls);
                calls2 = (if i > 0
                          then calls1 @ [(i - 1, js ! (i - 1), False)] else calls1)
            in ForEachEdge_loop m_cross js (i + 1) calls2))
      else calls)"
  by pat_completeness auto
termination
  by (relation "measure (\<lambda>(c, js, i, calls). length js - i)") auto

declare ForEachEdge_loop.simps [simp del]

definition ForEachEdge :: "Junction \<Rightarrow> RoadInfo \<Rightarrow> edge_call list" where
  "ForEachEdge m_cross roadInfo = ForEachEdge_loop m_cross (m_junctions roadInfo) 0 []"

text \<open>The calls the claim asks of one vertex index.\<close>

definition calls_at :: "Junction \<Rightarrow> Junction list \<Rightarrow> nat \<Rightarrow> edge_call list" where
  "calls_at cross js i =
     (if AlmostEqualAbs_point (GetPoint cross) (GetPoint (js ! i)) kPointsEqualEpsilon
      then (if i + 1 < length js then [(i, js ! (i + 1), True)] else []) @
           (if 0 < i then [(i - 1, js ! (i - 1), False)] else [])
      else [])"

section \<open>Routing index generator (generator/routing_index_generator.cpp)\<close>

subsection \<open>Data of the collaborators\<close>

text \<open>
  \<open>VehicleMask\<close> is a \<open>uint32_t\<close> bit set. A feature is reduced to what the generator
  reads of it: the classification types the vehicle models look at, and the points of its
  best geometry (\<open>ParseGeometry\<close> only loads them).
\<close>

type_synonym VehicleMask = "32 word"

record FeatureType =
  f_types :: "nat list"
  f_points :: "PointD list"

definition GetPointsCount :: "FeatureType \<Rightarrow> nat" where
  "GetPointsCount f = length (f_points f)"

text \<open>\<open>FeatureType::GetPoint\<close>; every call of the generator has its index in range.\<close>

definition GetPointAt :: "FeatureType \<Rightarrow> nat \<Rightarrow> PointD" where
  "GetPointAt f i = f_points f ! i"

record IVehicleModel =
  IsRoad :: "FeatureType \<Rightarrow> bool"
  IsOneWay :: "FeatureType \<Rightarrow> bool"

text \<open>
  A region is given by its containment test, \<open>m2::RegionD::Contains\<close>.
\<close>

type_synonym RegionD = "PointD \<Rightarrow> bool"

text \<open>
  Exceptions are split by what the handler of \<open>BuildRoutingIndex\<close> can catch:
  \<open>RootException\<close> stands for the class and everything derived from it, \<open>StdException\<close>
  for any other C++ exception. A failed \<open>CHECK\<close> or \<open>ASSERT\<close> hands control to the
  assert handler, which does not return: it ends the process or throws.
\<close>

datatype exn = RootException string | StdException string

datatype failure = Thrown exn | Terminated

datatype event =
    LogInfo string
  | LogError string
  | FileRead string
  | FileOpen string
  | FileWrite string

record RoadPoint =
  m_featureId :: "32 word"
  m_pointId :: "32 word"

text \<open>
  A \<open>Joint\<close> is the sequence of road points added to it: \<open>AddPoint\<close> appends and
  \<open>GetSize\<close> counts.
\<close>

type_synonym Joint = "RoadPoint list"

definition AddPoint :: "RoadPoint \<Rightarrow> Joint \<Rightarrow> Joint" where
  "AddPoint rp joint = joint @ [rp]"

definition GetSize :: "Joint \<Rightarrow> nat" where
  "GetSize joint = length joint"

text \<open>
  Modelled from the spec: \<open>IndexGraph\<close> (routing/index_graph.hpp is not among the
  sources) is kept as the joint table handed to \<open>Import\<close>.
\<close>

record IndexGraph =
  ig_joints :: "Joint list"

definition IndexGraph_default :: IndexGraph where
  "IndexGraph_default = \<lparr>ig_joints = []\<rparr>"

definition Import :: "IndexGraph \<Rightarrow> Joint list \<Rightarrow> IndexGraph" where
  "Import graph joints = graph\<lparr>ig_joints := joints\<rparr>"

record Segment =
  s_featureId :: "32 word"
  s_segmentIdx :: "32 word"
  s_forward :: bool

record SegmentEdge =
  e_target :: Segment
  e_weight :: real

definition GetWeight :: "SegmentEdge \<Rightarrow> real" where
  "GetWeight edge = e_weight edge"

text \<open>
  \<open>CrossMwmConnectorSerializer::Transition\<close>, with the fields in the order of the
  constructor arguments used by the scan.
\<close>

record Transition =
  t_featureId :: "32 word"
  t_segmentIdx :: "32 word"
  t_roadMask :: VehicleMask
  t_oneWayMask :: VehicleMask
  t_forwardIsEnter :: bool
  t_backPoint :: PointD
  t_frontPoint :: PointD

text \<open>
  Modelled from the spec: \<open>CrossMwmConnector\<close> (routing/cross_mwm_connector.hpp is not
  among the sources) holds the ordered enters and exits and a weight table from enter and
  exit to a cost or the no-route sentinel; \<open>FillWeights\<close> fills the table by asking the
  given function for every pair of an enter and an exit.
\<close>

record CrossMwmConnector =
  m_enters :: "Segment list"
  m_exits :: "Segment list"
  m_weights :: "Segment \<times> Segment \<rightharpoonup> real"

definition CrossMwmConnector_default :: CrossMwmConnector where
  "CrossMwmConnector_default = \<lparr>m_enters = [], m_exits = [], m_weights = Map.empty\<rparr>"

definition GetEnters :: "CrossMwmConnector \<Rightarrow> Segment list" where
  "GetEnters c = m_enters c"

definition GetExits :: "CrossMwmConnector \<Rightarrow> Segment list" where
  "GetExits c = m_exits c"

definition GetEnter :: "CrossMwmConnector \<Rightarrow> nat \<Rightarrow> Segment" where
  "GetEnter c i = m_enters c ! i"

definition Connector_FillWeights ::
  "(Segment \<Rightarrow> Segment \<Rightarrow> real) \<Rightarrow> CrossMwmConnector \<Rightarrow> CrossMwmConnector" where
  "Connector_FillWeights calcWeight c =
     c\<lparr>m_weights := (\<lambda>(enter, exit).
          if enter \<in> set (m_enters c) \<and> exit \<in> set (m_exits c)
          then Some (calcWeight enter exit) else None)\<rparr>"

text \<open>
  The collaborators the generator calls and the constants it reads, none of them among the
  sources; every function of the generator takes them as its first argument.
  \<^item> the three model factories answer \<open>None\<close> for a null pointer;
  \<^item> \<open>OnAssertFailed\<close> is what a failed \<open>CHECK\<close> or \<open>ASSERT\<close> ends in;
  \<^item> \<open>ForEachFromDat\<close> gives the features and identifiers handed to the callback, in
    order, and the exception the reader raised after them, if any;
  \<^item> \<open>PointToInt64\<close> is taken at the resolution \<open>POINT_COORD_BITS\<close>;
  \<^item> \<open>PropagateWave\<close> is given the two edge functions of the wrapper, the start vertex,
    the stop test, the edge weight function and the distance map as it stands (the map
    is passed by reference), and answers the distance map as the wave leaves it;
  \<^item> \<open>GetVehicleMask\<close> is taken at the number of a vehicle type, and
    \<open>AddTransition\<close> is \<open>CrossMwmConnectorSerializer::AddTransition\<close>;
  \<^item> \<open>LoadIndexGraph\<close> stands for the construction of the graph of the tile from its
    geometry loader and estimator and for \<open>DeserializeIndexGraph\<close>;
  \<^item> the file operations answer the exception they raise, if any, and the serialisers
    the size of the section they wrote.
\<close>

record collaborators =
  GetPedestrianModel :: "string \<Rightarrow> IVehicleModel option"
  GetBicycleModel :: "string \<Rightarrow> IVehicleModel option"
  GetCarModel :: "string \<Rightarrow> IVehicleModel option"
  kPedestrianMask :: VehicleMask
  kBicycleMask :: VehicleMask
  kCarMask :: VehicleMask
  GetVehicleMask :: "nat \<Rightarrow> VehicleMask"
  OnAssertFailed :: failure
  ForEachFromDat :: "string \<Rightarrow> (FeatureType \<times> 32 word) list \<times> exn option"
  PointToInt64 :: "PointD \<Rightarrow> 64 word"
  LoadBorders :: "string \<Rightarrow> exn + RegionD list"
  AddTransition :: "Transition \<Rightarrow> VehicleMask \<Rightarrow> CrossMwmConnector \<Rightarrow> CrossMwmConnector"
  LoadIndexGraph :: "string \<Rightarrow> string \<Rightarrow> string \<Rightarrow> IVehicleModel \<Rightarrow> exn + IndexGraph"
  GetEdgeList :: "IndexGraph \<Rightarrow> Segment \<Rightarrow> bool \<Rightarrow> SegmentEdge list"
  PropagateWave ::
    "(Segment \<Rightarrow> SegmentEdge list) \<Rightarrow> (Segment \<Rightarrow> SegmentEdge list) \<Rightarrow> Segment \<Rightarrow>
     (Segment \<Rightarrow> bool) \<Rightarrow> (Segment \<Rightarrow> SegmentEdge \<Rightarrow> real) \<Rightarrow> (Segment \<rightharpoonup> real) \<Rightarrow>
     (Segment \<rightharpoonup> real)"
  kNoRoute :: real
  OpenContainer :: "string \<Rightarrow> exn option"
  GetWriter :: "string \<Rightarrow> string \<Rightarrow> exn option"
  SerializeIndexGraph :: "IndexGraph \<Rightarrow> (32 word \<rightharpoonup> VehicleMask) \<Rightarrow> exn + nat"
  LoadCodingParams :: "string \<Rightarrow> exn + nat"
  SerializeCrossMwm ::
    "Transition list \<Rightarrow> CrossMwmConnector list \<Rightarrow> nat \<Rightarrow> exn + nat"

text \<open>
  \<open>base::checked_cast<uint32_t>\<close> and \<open>base::asserted_cast<uint32_t>\<close> from a
  \<open>size_t\<close>: the value must survive the round trip, or the assert handler is called
  (base/checked_cast.hpp is not among the sources; the first checks with \<open>CHECK\<close>, the
  second with \<open>ASSERT\<close>, and the model keeps the check of both). The claims are
  stated for values that fit, where the cast is the identity either way.
\<close>

definition checked_cast :: "collaborators \<Rightarrow> nat \<Rightarrow> failure + 32 word" where
  "checked_cast C v =
     (if unat (of_nat v :: 32 word) = v then Inr (of_nat v) else Inl (OnAssertFailed C))"

definition asserted_cast :: "collaborators \<Rightarrow> nat \<Rightarrow> failure + 32 word" where
  "asserted_cast C v =
     (if unat (of_nat v :: 32 word) = v then Inr (of_nat v) else Inl (OnAssertFailed C))"

subsection \<open>VehicleMaskBuilder\<close>

record VehicleMaskBuilder =
  m_pedestrianModel :: IVehicleModel
  m_bicycleModel :: IVehicleModel
  m_carModel :: IVehicleModel

text \<open>
  The constructor asks the three factories first and then checks the three pointers in
  turn.
\<close>

definition VehicleMaskBuilder_ctor ::
  "collaborators \<Rightarrow> string \<Rightarrow> failure + VehicleMaskBuilder" where
  "VehicleMaskBuilder_ctor C country =
     (let pedestrianModel = GetPedestrianModel C country;
          bicycleModel = GetBicycleModel C country;
          carModel = GetCarModel C country
      in case pedestrianModel of
           None \<Rightarrow> Inl (OnAssertFailed C)
         | Some pm \<Rightarrow>
             (case bicycleModel of
                None \<Rightarrow> Inl (OnAssertFailed C)
              | Some bm \<Rightarrow>
                  (case carModel of
                     None \<Rightarrow> Inl (OnAssertFailed C)
                   | Some cm \<Rightarrow>
                       Inr \<lparr>m_pedestrianModel = pm, m_bicycleModel = bm,
                            m_carModel = cm\<rparr>)))"

definition CalcMask ::
  "collaborators \<Rightarrow> VehicleMaskBuilder \<Rightarrow> FeatureType \<Rightarrow>
   (IVehicleModel \<Rightarrow> FeatureType \<Rightarrow> bool) \<Rightarrow> VehicleMask" where
  "CalcMask C mb f fn =
     (let mask = 0;
          mask = (if fn (m_pedestrianModel mb) f then or mask (kPedestrianMask C) else mask);
          mask = (if fn (m_bicycleModel mb) f then or mask (kBicycleMask C) else mask);
          mask = (if fn (m_carModel mb) f then or mask (kCarMask C) else mask)
      in mask)"

definition CalcRoadMask :: "collaborators \<Rightarrow> VehicleMaskBuilder \<Rightarrow> FeatureType \<Rightarrow> VehicleMask" where
  "CalcRoadMask C mb f = CalcMask C mb f (\<lambda>model f. IsRoad model f)"

definition CalcOneWayMask :: "collaborators \<Rightarrow> VehicleMaskBuilder \<Rightarrow> FeatureType \<Rightarrow> VehicleMask" where
  "CalcOneWayMask C mb f = CalcMask C mb f (\<lambda>model f. IsOneWay model f)"

subsection \<open>Processor\<close>

text \<open>
  \<open>m_posToJoint\<close> is an \<open>unordered_map\<close> that \<open>BuildGraph\<close> iterates: it is kept as
  a list of keys with their joints, every key once, in the order the keys were first
  seen (the order of iteration of the container is not fixed by the language).
\<close>

record Processor =
  m_maskBuilder :: VehicleMaskBuilder
  m_posToJoint :: "(64 word \<times> Joint) list"
  m_masks :: "32 word \<rightharpoonup> VehicleMask"

definition Processor_ctor :: "collaborators \<Rightarrow> string \<Rightarrow> failure + Processor" where
  "Processor_ctor C country =
     (case VehicleMaskBuilder_ctor C country of
        Inl e \<Rightarrow> Inl e
      | Inr mb \<Rightarrow> Inr \<lparr>m_maskBuilder = mb, m_posToJoint = [], m_masks = Map.empty\<rparr>)"

text \<open>\<open>m_posToJoint[locationKey].AddPoint(rp)\<close>: a missing key gets an empty joint first.\<close>

fun AddPointAt :: "64 word \<Rightarrow> RoadPoint \<Rightarrow> (64 word \<times> Joint) list \<Rightarrow> (64 word \<times> Joint) list" where
  "AddPointAt locationKey rp [] = [(locationKey, AddPoint rp [])]"
| "AddPointAt locationKey rp ((k, joint) # rest) =
     (if k = locationKey then (k, AddPoint rp joint) # rest
      else (k, joint) # AddPointAt locationKey rp rest)"

function ProcessFeature_loop ::
  "collaborators \<Rightarrow> FeatureType \<Rightarrow> 32 word \<Rightarrow> nat \<Rightarrow> (64 word \<times> Joint) list \<Rightarrow>
   failure + (64 word \<times> Joint) list" where
  "ProcessFeature_loop C f fid i posToJoint =
     (if i < GetPointsCount f then
        (let locationKey = PointToInt64 C (GetPointAt f i)
         in case checked_cast C i of
              Inl e \<Rightarrow> Inl e
            | Inr pointId \<Rightarrow>
                ProcessFeature_loop C f fid (i + 1)
                  (AddPointAt locationKey \<lparr>m_featureId = fid, m_pointId = pointId\<rparr> posToJoint))
      else Inr posToJoint)"
  by pat_completeness auto
termination
  by (relation "measure (\<lambda>(C, f, fid, i, posToJoint). GetPointsCount f - i)") auto

declare ProcessFeature_loop.simps [simp del]

definition ProcessFeature ::
  "collaborators \<Rightarrow> Processor \<Rightarrow> FeatureType \<Rightarrow> 32 word \<Rightarrow> failure + Processor" where
  "ProcessFeature C P f fid =
     (let mask = CalcRoadMask C (m_maskBuilder P) f
      in if mask = 0 then Inr P
         else
           (let P1 = P\<lparr>m_masks := (m_masks P)(fid \<mapsto> mask)\<rparr>
            in case ProcessFeature_loop C f fid 0 (m_posToJoint P1) of
                 Inl e \<Rightarrow> Inl e
               | Inr posToJoint \<Rightarrow> Inr (P1\<lparr>m_posToJoint := posToJoint\<rparr>)))"

text \<open>
  \<open>feature::ForEachFromDat\<close> with \<open>ProcessFeature\<close> as the callback: the features the
  reader hands over are processed in order, and a failure ends the iteration.
\<close>

fun ProcessFeatures ::
  "collaborators \<Rightarrow> Processor \<Rightarrow> (FeatureType \<times> 32 word) list \<Rightarrow> failure + Processor" where
  "ProcessFeatures C P [] = Inr P"
| "ProcessFeatures C P ((f, fid) # rest) =
     (case ProcessFeature C P f fid of
        Inl e \<Rightarrow> Inl e
      | Inr P1 \<Rightarrow> ProcessFeatures C P1 rest)"

definition ProcessAllFeatures ::
  "collaborators \<Rightarrow> Processor \<Rightarrow> string \<Rightarrow> event list \<times> (failure + Processor)" where
  "ProcessAllFeatures C P filename =
     (case ForEachFromDat C filename of
        (features, raised) \<Rightarrow>
          ([FileRead filename],
           (case ProcessFeatures C P features of
              Inl e \<Rightarrow> Inl e
            | Inr P1 \<Rightarrow> (case raised of None \<Rightarrow> Inr P1 | Some e \<Rightarrow> Inl (Thrown e)))))"

text \<open>\<open>BuildGraph\<close>: the loop collects the joints, then \<open>graph.Import(joints)\<close>.\<close>

fun BuildGraph_loop :: "(64 word \<times> Joint) list \<Rightarrow> Joint list \<Rightarrow> Joint list" where
  "BuildGraph_loop [] joints = joints"
| "BuildGraph_loop (it # rest) joints =
     BuildGraph_loop rest (if GetSize (snd it) \<ge> 2 then joints @ [snd it] else joints)"

definition BuildGraph_joints :: "Processor \<Rightarrow> Joint list" where
  "BuildGraph_joints P = BuildGraph_loop (m_posToJoint P) []"

definition BuildGraph :: "Processor \<Rightarrow> IndexGraph \<Rightarrow> IndexGraph" where
  "BuildGraph P graph = Import graph (BuildGraph_joints P)"

definition GetMasks :: "Processor \<Rightarrow> (32 word \<rightharpoonup> VehicleMask)" where
  "GetMasks P = m_masks P"

text \<open>Two road points lie in the same joint of the processor.\<close>

definition same_joint :: "Processor \<Rightarrow> RoadPoint \<Rightarrow> RoadPoint \<Rightarrow> bool" where
  "same_joint P a b = list_ex (\<lambda>it. a \<in> set (snd it) \<and> b \<in> set (snd it)) (m_posToJoint P)"

subsection \<open>The border-crossing scan\<close>

definition RegionsContain :: "RegionD list \<Rightarrow> PointD \<Rightarrow> bool" where
  "RegionsContain regions point = list_ex (\<lambda>region. region point) regions"

function AddToConnectors ::
  "collaborators \<Rightarrow> Transition \<Rightarrow> nat \<Rightarrow> CrossMwmConnector list \<Rightarrow> CrossMwmConnector list" where
  "AddToConnectors C t j connectors =
     (if j < length connectors then
        (let mask = GetVehicleMask C j
         in AddToConnectors C t (j + 1)
              (connectors[j := AddTransition C t mask (connectors ! j)]))
      else connectors)"
  by pat_completeness auto
termination
  by (relation "measure (\<lambda>(C, t, j, connectors). length connectors - j)") auto

declare AddToConnectors.simps [simp del]

text \<open>
  The body of the loop over the vertices \<open>1 \<le> i < pointsCount\<close> of one feature; the
  state is \<open>prevPointIn\<close>, the transitions and the connectors.
\<close>

function scan_loop ::
  "collaborators \<Rightarrow> RegionD list \<Rightarrow> VehicleMaskBuilder \<Rightarrow> FeatureType \<Rightarrow> 32 word \<Rightarrow>
   VehicleMask \<Rightarrow> nat \<Rightarrow> nat \<Rightarrow> bool \<Rightarrow> Transition list \<times> CrossMwmConnector list \<Rightarrow>
   failure + Transition list \<times> CrossMwmConnector list" where
  "scan_loop C borders maskMaker f featureId roadMask pointsCount i prevPointIn st =
     (if i < pointsCount then
        (let currPointIn = RegionsContain borders (GetPointAt f i)
         in if currPointIn = prevPointIn
            then scan_loop C borders maskMaker f featureId roadMask pointsCount (i + 1)
                   prevPointIn st
            else
              (case asserted_cast C (i - 1) of
                 Inl e \<Rightarrow> Inl e
               | Inr segmentIdx \<Rightarrow>
                   (let oneWayMask = CalcOneWayMask C maskMaker f;
                        transitions = fst st @
                          [\<lparr>t_featureId = featureId, t_segmentIdx = segmentIdx,
                            t_roadMask = roadMask, t_oneWayMask = oneWayMask,
                            t_forwardIsEnter = currPointIn,
                            t_backPoint = GetPointAt f (i - 1),
                            t_frontPoint = GetPointAt f i\<rparr>];
                        connectors = AddToConnectors C (last transitions) 0 (snd st)
                    in scan_loop C borders maskMaker f featureId roadMask pointsCount (i + 1)
                         currPointIn (transitions, connectors))))
      else Inr st)"
  by pat_completeness auto
termination
  by (relation "measure (\<lambda>(C, borders, maskMaker, f, featureId, roadMask, pointsCount, i,
        prevPointIn, st). pointsCount - i)") auto

declare scan_loop.simps [simp del]

text \<open>The callback of \<open>ForEachFromDat\<close> in \<open>CalcCrossMwmTransitions\<close>.\<close>

definition scan_feature ::
  "collaborators \<Rightarrow> RegionD list \<Rightarrow> VehicleMaskBuilder \<Rightarrow>
   Transition list \<times> CrossMwmConnector list \<Rightarrow> FeatureType \<Rightarrow> 32 word \<Rightarrow>
   failure + Transition list \<times> CrossMwmConnector list" where
  "scan_feature C borders maskMaker st f featureId =
     (let roadMask = CalcRoadMask C maskMaker f
      in if roadMask = 0 then Inr st
         else
           (let pointsCount = GetPointsCount f
            in if pointsCount = 0 then Inr st
               else
                 (let prevPointIn = RegionsContain borders (GetPointAt f 0)
                  in scan_loop C borders maskMaker f featureId roadMask pointsCount 1
                       prevPointIn st)))"

fun scan_features ::
  "collaborators \<Rightarrow> RegionD list \<Rightarrow> VehicleMaskBuilder \<Rightarrow>
   Transition list \<times> CrossMwmConnector list \<Rightarrow> (FeatureType \<times> 32 word) list \<Rightarrow>
   failure + Transition list \<times> CrossMwmConnector list" where
  "scan_features C borders maskMaker st [] = Inr st"
| "scan_features C borders maskMaker st ((f, featureId) # rest) =
     (case scan_feature C borders maskMaker st f featureId of
        Inl e \<Rightarrow> Inl e
      | Inr st1 \<Rightarrow> scan_features C borders maskMaker st1 rest)"

text \<open>
  Modelled from the spec: the path of the border file, \<open><path>/borders/<country>.poly\<close>
  (\<open>my::JoinPath\<close>, \<open>BORDERS_DIR\<close> and \<open>BORDERS_EXTENSION\<close> are not among the sources).
\<close>

definition polyFile_of :: "string \<Rightarrow> string \<Rightarrow> string" where
  "polyFile_of path country = path @ ''/borders/'' @ country @ ''.poly''"

text \<open>
  \<open>CalcCrossMwmTransitions\<close>: the borders are loaded, then the mask builder is made, then
  the features of the tile are read. The result carries the file and log events in order.
\<close>

definition CalcCrossMwmTransitions ::
  "collaborators \<Rightarrow> string \<Rightarrow> string \<Rightarrow> string \<Rightarrow>
   Transition list \<times> CrossMwmConnector list \<Rightarrow>
   event list \<times> (failure + Transition list \<times> CrossMwmConnector list)" where
  "CalcCrossMwmTransitions C path mwmFile country st =
     (let polyFile = polyFile_of path country
      in case LoadBorders C polyFile of
           Inl e \<Rightarrow> ([FileRead polyFile], Inl (Thrown e))
         | Inr borders \<Rightarrow>
             (case VehicleMaskBuilder_ctor C country of
                Inl e \<Rightarrow> ([FileRead polyFile], Inl e)
              | Inr maskMaker \<Rightarrow>
                  (case ForEachFromDat C mwmFile of
                     (features, raised) \<Rightarrow>
                       ([FileRead polyFile, FileRead mwmFile],
                        (case scan_features C borders maskMaker st features of
                           Inl e \<Rightarrow> Inl e
                         | Inr st1 \<Rightarrow>
                             (case raised of
                                None \<Rightarrow> Inr st1
                              | Some e \<Rightarrow> Inl (Thrown e)))))))"

subsection \<open>BuildRoutingIndex\<close>

text \<open>
  Modelled from the spec: the tags of the two sections, \<open>routing\<close> and \<open>cross_mwm\<close>
  (\<open>ROUTING_FILE_TAG\<close> and \<open>CROSS_MWM_FILE_TAG\<close> are not among the sources).
\<close>

definition ROUTING_FILE_TAG :: string where
  "ROUTING_FILE_TAG = ''routing''"

definition CROSS_MWM_FILE_TAG :: string where
  "CROSS_MWM_FILE_TAG = ''cross_mwm''"

text \<open>
  The block under \<open>try\<close>: the events it leaves, and the value it returns or the failure
  that leaves it.
\<close>

definition BuildRoutingIndex_try ::
  "collaborators \<Rightarrow> string \<Rightarrow> string \<Rightarrow> event list \<times> (failure + bool)" where
  "BuildRoutingIndex_try C filename country =
     (case Processor_ctor C country of
        Inl e \<Rightarrow> ([], Inl e)
      | Inr processor \<Rightarrow>
          (case ProcessAllFeatures C processor filename of
             (ev, Inl e) \<Rightarrow> (ev, Inl e)
           | (ev, Inr processor1) \<Rightarrow>
               (let graph = BuildGraph processor1 IndexGraph_default
                in case OpenContainer C filename of
                     Some e \<Rightarrow> (ev @ [FileOpen filename], Inl (Thrown e))
                   | None \<Rightarrow>
                       (case GetWriter C filename ROUTING_FILE_TAG of
                          Some e \<Rightarrow> (ev @ [FileOpen filename], Inl (Thrown e))
                        | None \<Rightarrow>
                            (case SerializeIndexGraph C graph (GetMasks processor1) of
                               Inl e \<Rightarrow>
                                 (ev @ [FileOpen filename, FileWrite filename], Inl (Thrown e))
                             | Inr sectionSize \<Rightarrow>
                                 (ev @ [FileOpen filename, FileWrite filename,
                                        LogInfo ''Routing section created:''],
                                  Inr True))))))"

text \<open>
  \<open>BuildRoutingIndex\<close>: the handler \<open>catch (RootException const & e)\<close> takes a
  \<open>RootException\<close>, logs it and returns \<open>false\<close>; anything else leaves the function.
\<close>

definition BuildRoutingIndex ::
  "collaborators \<Rightarrow> string \<Rightarrow> string \<Rightarrow> event list \<times> (failure + bool)" where
  "BuildRoutingIndex C filename country =
     (case BuildRoutingIndex_try C filename country of
        (ev, Inr b) \<Rightarrow> (LogInfo ''Building routing index for'' # ev, Inr b)
      | (ev, Inl (Thrown (RootException what))) \<Rightarrow>
          (LogInfo ''Building routing index for'' # ev @
             [LogError (''An exception happened while creating routing section:'' @ what)],
           Inr False)
      | (ev, Inl e) \<Rightarrow> (LogInfo ''Building routing index for'' # ev, Inl e))"

definition is_file_event :: "event \<Rightarrow> bool" where
  "is_file_event ev = (case ev of LogInfo m \<Rightarrow> False | LogError m \<Rightarrow> False | _ \<Rightarrow> True)"

subsection \<open>Leap weights\<close>

record DijkstraWrapper =
  m_graph :: IndexGraph

definition GetOutgoingEdgesList ::
  "collaborators \<Rightarrow> DijkstraWrapper \<Rightarrow> Segment \<Rightarrow> SegmentEdge list" where
  "GetOutgoingEdgesList C wrapper vertex = GetEdgeList C (m_graph wrapper) vertex True"

definition GetIngoingEdgesList ::
  "collaborators \<Rightarrow> DijkstraWrapper \<Rightarrow> Segment \<Rightarrow> SegmentEdge list" where
  "GetIngoingEdgesList C wrapper vertex = GetEdgeList C (m_graph wrapper) vertex False"

definition HeuristicCostEstimate :: "Segment \<Rightarrow> Segment \<Rightarrow> real" where
  "HeuristicCostEstimate from to = 0"

text \<open>
  The wave of \<open>FillWeights\<close> from one enter: \<open>PropagateWave\<close> on the wrapper of the
  graph, never stopped, with the weight of an edge as its cost, on the distance map that
  \<open>FillWeights\<close> declares once and hands to every wave.
\<close>

definition wave_from ::
  "collaborators \<Rightarrow> IndexGraph \<Rightarrow> Segment \<Rightarrow> (Segment \<rightharpoonup> real) \<Rightarrow> (Segment \<rightharpoonup> real)" where
  "wave_from C graph enter distanceMap =
     (let wrapper = \<lparr>m_graph = graph\<rparr>
      in PropagateWave C (GetOutgoingEdgesList C wrapper) (GetIngoingEdgesList C wrapper) enter
           (\<lambda>vertex. False) (\<lambda>vertex edge. GetWeight edge) distanceMap)"

type_synonym weight_table = "Segment \<rightharpoonup> (Segment \<rightharpoonup> real)"

text \<open>\<open>weights[enter][exit] = it->second\<close>: a missing row is made first.\<close>

definition set_weight :: "Segment \<Rightarrow> Segment \<Rightarrow> real \<Rightarrow> weight_table \<Rightarrow> weight_table" where
  "set_weight enter exit w weights =
     weights(enter \<mapsto> (case weights enter of None \<Rightarrow> Map.empty | Some row \<Rightarrow> row)(exit \<mapsto> w))"

fun exits_loop ::
  "Segment \<Rightarrow> (Segment \<rightharpoonup> real) \<Rightarrow> Segment list \<Rightarrow> weight_table \<Rightarrow> weight_table" where
  "exits_loop enter distanceMap [] weights = weights"
| "exits_loop enter distanceMap (exit # rest) weights =
     exits_loop enter distanceMap rest
       (case distanceMap exit of
          None \<Rightarrow> weights
        | Some d \<Rightarrow> set_weight enter exit d weights)"

text \<open>
  The loop over the enters; its state is the weight table, the distance map and the log.
\<close>

record leap_state =
  ls_weights :: weight_table
  ls_distanceMap :: "Segment \<rightharpoonup> real"
  ls_log :: "event list"

function enters_loop ::
  "collaborators \<Rightarrow> IndexGraph \<Rightarrow> CrossMwmConnector \<Rightarrow> nat \<Rightarrow> nat \<Rightarrow> leap_state \<Rightarrow>
   leap_state" where
  "enters_loop C graph connector numEnters i st =
     (if i < numEnters then
        (let log = (if i mod 10 = 0 \<and> i \<noteq> 0
                    then ls_log st @ [LogInfo ''Building leaps:''] else ls_log st);
             enter = GetEnter connector i;
             distanceMap = wave_from C graph enter (ls_distanceMap st);
             weights = exits_loop enter distanceMap (GetExits connector) (ls_weights st)
         in enters_loop C graph connector numEnters (i + 1)
              \<lparr>ls_weights = weights, ls_distanceMap = distanceMap, ls_log = log\<rparr>)
      else st)"
  by pat_completeness auto
termination
  by (relation "measure (\<lambda>(C, graph, connector, numEnters, i, st). numEnters - i)") auto

declare enters_loop.simps [simp del]

text \<open>The function handed to \<open>connector.FillWeights\<close>.\<close>

definition weights_lookup :: "collaborators \<Rightarrow> weight_table \<Rightarrow> Segment \<Rightarrow> Segment \<Rightarrow> real" where
  "weights_lookup C weights enter exit =
     (case weights enter of
        None \<Rightarrow> kNoRoute C
      | Some row \<Rightarrow> (case row exit of None \<Rightarrow> kNoRoute C | Some w \<Rightarrow> w))"

definition leap_weights :: "collaborators \<Rightarrow> IndexGraph \<Rightarrow> CrossMwmConnector \<Rightarrow> weight_table" where
  "leap_weights C graph connector =
     ls_weights (enters_loop C graph connector (length (GetEnters connector)) 0
       \<lparr>ls_weights = Map.empty, ls_distanceMap = Map.empty, ls_log = []\<rparr>)"

text \<open>
  \<open>FillWeights\<close>. The car model is dereferenced without a check, so a null model ends
  the process.
\<close>

definition FillWeights ::
  "collaborators \<Rightarrow> string \<Rightarrow> string \<Rightarrow> string \<Rightarrow> CrossMwmConnector \<Rightarrow>
   event list \<times> (failure + CrossMwmConnector)" where
  "FillWeights C path mwmFile country connector =
     (case GetCarModel C country of
        None \<Rightarrow> ([], Inl Terminated)
      | Some vehicleModel \<Rightarrow>
          (case LoadIndexGraph C path mwmFile country vehicleModel of
             Inl e \<Rightarrow> ([FileRead mwmFile], Inl (Thrown e))
           | Inr graph \<Rightarrow>
               (let numEnters = length (GetEnters connector);
                    st = enters_loop C graph connector numEnters 0
                           \<lparr>ls_weights = Map.empty, ls_distanceMap = Map.empty, ls_log = []\<rparr>
                in (FileRead mwmFile # ls_log st,
                    Inr (Connector_FillWeights (weights_lookup C (ls_weights st))
                           connector)))))"

subsection \<open>BuildCrossMwmSection\<close>

text \<open>
  Modelled from the spec: the vehicle types \<open>Pedestrian\<close>, \<open>Bicycle\<close> and \<open>Car\<close>, numbered
  in this order, index the connectors (routing/vehicle_mask.hpp is not among the sources).
\<close>

datatype VehicleType = Pedestrian | Bicycle | Car

fun VehicleType_index :: "VehicleType \<Rightarrow> nat" where
  "VehicleType_index Pedestrian = 0"
| "VehicleType_index Bicycle = 1"
| "VehicleType_index Car = 2"

definition VehicleType_Count :: nat where
  "VehicleType_Count = 3"

text \<open>
  The events of the section's archive and the value are what was handed to the
  serialiser: the transitions and the connectors.
\<close>

definition write_cross_mwm ::
  "collaborators \<Rightarrow> string \<Rightarrow> Transition list \<Rightarrow> CrossMwmConnector list \<Rightarrow>
   event list \<times> (failure + Transition list \<times> CrossMwmConnector list)" where
  "write_cross_mwm C mwmFile transitions connectors =
     (case LoadCodingParams C mwmFile of
        Inl e \<Rightarrow> ([FileRead mwmFile], Inl (Thrown e))
      | Inr codingParams \<Rightarrow>
          (case OpenContainer C mwmFile of
             Some e \<Rightarrow> ([FileRead mwmFile, FileOpen mwmFile], Inl (Thrown e))
           | None \<Rightarrow>
               (case GetWriter C mwmFile CROSS_MWM_FILE_TAG of
                  Some e \<Rightarrow> ([FileRead mwmFile, FileOpen mwmFile], Inl (Thrown e))
                | None \<Rightarrow>
                    (case SerializeCrossMwm C transitions connectors codingParams of
                       Inl e \<Rightarrow>
                         ([FileRead mwmFile, FileOpen mwmFile, FileWrite mwmFile],
                          Inl (Thrown e))
                     | Inr sectionSize \<Rightarrow>
                         ([FileRead mwmFile, FileOpen mwmFile, FileWrite mwmFile,
                           LogInfo ''Cross mwm section generated, size:''],
                          Inr (transitions, connectors))))))"

definition BuildCrossMwmSection ::
  "collaborators \<Rightarrow> string \<Rightarrow> string \<Rightarrow> string \<Rightarrow>
   event list \<times> (failure + Transition list \<times> CrossMwmConnector list)" where
  "BuildCrossMwmSection C path mwmFile country =
     (let connectors = replicate VehicleType_Count CrossMwmConnector_default;
          transitions = []
      in case CalcCrossMwmTransitions C path mwmFile country (transitions, connectors) of
           (ev1, Inl e) \<Rightarrow> (LogInfo ''Building cross mwm section for'' # ev1, Inl e)
         | (ev1, Inr (transitions1, connectors1)) \<Rightarrow>
             (let ev2 = LogInfo ''Building cross mwm section for'' # ev1 @
                        LogInfo ''Transitions finished, transitions:'' #
                        map (\<lambda>i. LogInfo ''model: enters:'') [0..<length connectors1]
              in case FillWeights C path mwmFile country
                        (connectors1 ! VehicleType_index Car) of
                   (ev3, Inl e) \<Rightarrow> (ev2 @ ev3, Inl e)
                 | (ev3, Inr connector) \<Rightarrow>
                     (let connectors2 = connectors1[VehicleType_index Car := connector]
                      in case write_cross_mwm C mwmFile transitions1 connectors2 of
                           (ev4, r) \<Rightarrow>
                             (ev2 @ ev3 @ LogInfo ''Leaps finished, elapsed:'' # ev4, r))))"

subsection \<open>What the claims say of the leap weights\<close>

text \<open>The weight recorded in the table for an enter and an exit, if any.\<close>

definition recorded_weight :: "weight_table \<Rightarrow> Segment \<Rightarrow> Segment \<Rightarrow> real option" where
  "recorded_weight weights enter exit =
     (case weights enter of None \<Rightarrow> None | Some row \<Rightarrow> row exit)"

text \<open>
  The wave the specification describes, written with the collaborators alone: the wave
  algorithm started at the enter, over the outgoing edge lists of the graph (the ingoing
  ones are those of the graph too), with no early stop and the weight of an edge as its
  cost, on a given distance map.
\<close>

definition claimed_wave ::
  "collaborators \<Rightarrow> IndexGraph \<Rightarrow> Segment \<Rightarrow> (Segment \<rightharpoonup> real) \<Rightarrow> (Segment \<rightharpoonup> real)" where
  "claimed_wave C graph enter distanceMap =
     PropagateWave C (\<lambda>vertex. GetEdgeList C graph vertex True)
       (\<lambda>vertex. GetEdgeList C graph vertex False) enter (\<lambda>vertex. False)
       (\<lambda>vertex edge. e_weight edge) distanceMap"

text \<open>
  The distance maps such waves leave when they are run one after the other from a list of
  enters, each on the map its predecessor left.
\<close>

fun claimed_maps ::
  "collaborators \<Rightarrow> IndexGraph \<Rightarrow> Segment list \<Rightarrow> (Segment \<rightharpoonup> real) \<Rightarrow>
   (Segment \<rightharpoonup> real) list" where
  "claimed_maps C graph [] distanceMap = []"
| "claimed_maps C graph (enter # rest) distanceMap =
     claimed_wave C graph enter distanceMap #
     claimed_maps C graph rest (claimed_wave C graph enter distanceMap)"

text \<open>
  The weight the table holds for an enter and an exit after a list of waves, each given
  with the enter it started from: the distance that the last wave from this enter which
  reached the exit left at the exit.
\<close>

fun claimed_weight ::
  "(Segment \<times> (Segment \<rightharpoonup> real)) list \<Rightarrow> Segment \<Rightarrow> Segment \<Rightarrow> real option" where
  "claimed_weight [] enter exit = None"
| "claimed_weight ((e, distanceMap) # waves) enter exit =
     (case claimed_weight waves enter exit of
        Some w \<Rightarrow> Some w
      | None \<Rightarrow> if e = enter then distanceMap exit else None)"

subsection \<open>What the claims say of the joints\<close>

text \<open>
  The vertices of a feature as the processor sees them, each with its location key and
  its road point; adding a sequence of such vertices to the table of joints; and the joint
  found at a key, empty when the key is missing.
\<close>

definition feature_vertices ::
  "collaborators \<Rightarrow> VehicleMaskBuilder \<Rightarrow> FeatureType \<times> 32 word \<Rightarrow> (64 word \<times> RoadPoint) list" where
  "feature_vertices C mb ffid =
     (case ffid of (f, fid) \<Rightarrow>
        if CalcRoadMask C mb f = 0 then []
        else map (\<lambda>i. (PointToInt64 C (GetPointAt f i), \<lparr>m_featureId = fid, m_pointId = of_nat i\<rparr>))
               [0..<GetPointsCount f])"

definition add_vertices ::
  "(64 word \<times> RoadPoint) list \<Rightarrow> (64 word \<times> Joint) list \<Rightarrow> (64 word \<times> Joint) list" where
  "add_vertices kvs al = foldl (\<lambda>al kv. AddPointAt (fst kv) (snd kv) al) al kvs"

definition joint_at :: "(64 word \<times> Joint) list \<Rightarrow> 64 word \<Rightarrow> Joint" where
  "joint_at al k = (case map_of al k of None \<Rightarrow> [] | Some joint \<Rightarrow> joint)"

subsection \<open>What the claims say of the scan\<close>

text \<open>
  The transition the claims describe for the vertex \<open>i\<close> of a feature, the test that the
  containment in the borders differs between the vertices \<open>i - 1\<close> and \<open>i\<close>, and the
  transitions claimed for a whole feature: one for each \<open>1 \<le> i < pointsCount\<close> at
  which the containment differs, none for a feature whose road mask is zero.
\<close>

definition mk_transition ::
  "collaborators \<Rightarrow> RegionD list \<Rightarrow> VehicleMaskBuilder \<Rightarrow> FeatureType \<Rightarrow> 32 word \<Rightarrow> nat \<Rightarrow> Transition" where
  "mk_transition C borders maskMaker f featureId i =
     \<lparr>t_featureId = featureId, t_segmentIdx = of_nat (i - 1),
      t_roadMask = CalcRoadMask C maskMaker f, t_oneWayMask = CalcOneWayMask C maskMaker f,
      t_forwardIsEnter = RegionsContain borders (GetPointAt f i),
      t_backPoint = GetPointAt f (i - 1), t_frontPoint = GetPointAt f i\<rparr>"

definition flips :: "RegionD list \<Rightarrow> FeatureType \<Rightarrow> nat \<Rightarrow> bool" where
  "flips borders f i \<longleftrightarrow>
     RegionsContain borders (GetPointAt f i) \<noteq> RegionsContain borders (GetPointAt f (i - 1))"

definition claimed_transitions ::
  "collaborators \<Rightarrow> RegionD list \<Rightarrow> VehicleMaskBuilder \<Rightarrow> FeatureType \<Rightarrow> 32 word \<Rightarrow> Transition list" where
  "claimed_transitions C borders maskMaker f featureId =
     (if CalcRoadMask C maskMaker f = 0 then []
      else map (mk_transition C borders maskMaker f featureId)
             (filter (flips borders f) [1..<GetPointsCount f]))"

subsection \<open>A small tile\<close>

text \<open>
  Concrete collaborators for the examples: the border is the unit square, every feature
  with a type is a road for the three models, and a tile holds the two features
  \<open>A = [(0,0), (1,0)]\<close> and \<open>B = [(1,0), (1,1)]\<close>; the tile \<open>crossing.mwm\<close> holds one
  feature, which leaves the square, and the tile \<open>through.mwm\<close> one feature that enters
  the square and leaves it. The graph has one edge, of weight \<open>100\<close>, from the first
  segment of the feature \<open>7\<close> to its second, and the wave of the example relaxes the
  outgoing edges of its start once.
\<close>

definition unit_square :: RegionD where
  "unit_square p \<longleftrightarrow> 0 \<le> px p \<and> px p \<le> 1 \<and> 0 \<le> py p \<and> py p \<le> 1"

definition example_model :: IVehicleModel where
  "example_model = \<lparr>IsRoad = (\<lambda>f. f_types f \<noteq> []), IsOneWay = (\<lambda>f. False)\<rparr>"

definition example_maskBuilder :: VehicleMaskBuilder where
  "example_maskBuilder =
     \<lparr>m_pedestrianModel = example_model, m_bicycleModel = example_model,
      m_carModel = example_model\<rparr>"

definition feature_A :: FeatureType where
  "feature_A = \<lparr>f_types = [1], f_points = [\<lparr>px = 0, py = 0\<rparr>, \<lparr>px = 1, py = 0\<rparr>]\<rparr>"

definition feature_B :: FeatureType where
  "feature_B = \<lparr>f_types = [1], f_points = [\<lparr>px = 1, py = 0\<rparr>, \<lparr>px = 1, py = 1\<rparr>]\<rparr>"

definition feature_crossing :: FeatureType where
  "feature_crossing =
     \<lparr>f_types = [1], f_points = [\<lparr>px = 1 / 2, py = 9 / 10\<rparr>, \<lparr>px = 1 / 2, py = 11 / 10\<rparr>]\<rparr>"

definition feature_through :: FeatureType where
  "feature_through =
     \<lparr>f_types = [1],
      f_points = [\<lparr>px = 1 / 2, py = - 1 / 10\<rparr>, \<lparr>px = 1 / 2, py = 1 / 2\<rparr>,
                  \<lparr>px = 1 / 2, py = 11 / 10\<rparr>]\<rparr>"

definition example_collaborators :: collaborators where
  "example_collaborators =
     \<lparr>GetPedestrianModel = (\<lambda>country. Some example_model),
      GetBicycleModel = (\<lambda>country. Some example_model),
      GetCarModel = (\<lambda>country. Some example_model),
      kPedestrianMask = 1,
      kBicycleMask = 2,
      kCarMask = 4,
      GetVehicleMask = (\<lambda>j. push_bit j 1),
      OnAssertFailed = Terminated,
      ForEachFromDat = (\<lambda>name.
        if name = ''crossing.mwm'' then ([(feature_crossing, 7)], None)
        else if name = ''through.mwm'' then ([(feature_through, 7)], None)
        else ([(feature_A, 0), (feature_B, 1)], None)),
      PointToInt64 = (\<lambda>p. word_of_int (\<lfloor>px p\<rfloor> * 1000 + \<lfloor>py p\<rfloor>)),
      LoadBorders = (\<lambda>name. Inr [unit_square]),
      AddTransition = (\<lambda>t mask c.
        if and (t_roadMask t) mask = 0 then c
        else if t_forwardIsEnter t
          then c\<lparr>m_enters := m_enters c @
                 [\<lparr>s_featureId = t_featureId t, s_segmentIdx = t_segmentIdx t,
                   s_forward = True\<rparr>]\<rparr>
          else c\<lparr>m_exits := m_exits c @
                 [\<lparr>s_featureId = t_featureId t, s_segmentIdx = t_segmentIdx t,
                   s_forward = True\<rparr>]\<rparr>),
      LoadIndexGraph = (\<lambda>path mwmFile country model. Inr IndexGraph_default),
      GetEdgeList = (\<lambda>graph vertex isOutgoing.
        if isOutgoing \<and> vertex = \<lparr>s_featureId = 7, s_segmentIdx = 0, s_forward = True\<rparr>
        then [\<lparr>e_target = \<lparr>s_featureId = 7, s_segmentIdx = 1, s_forward = True\<rparr>,
               e_weight = 100\<rparr>]
        else []),
      PropagateWave = (\<lambda>outgoing ingoing start stop weight bestDistance.
        map_of ((start, 0) # map (\<lambda>edge. (e_target edge, weight start edge)) (outgoing start))),
      kNoRoute = - 1,
      OpenContainer = (\<lambda>name. None),
      GetWriter = (\<lambda>name tag. None),
      SerializeIndexGraph = (\<lambda>graph masks. Inr (length (ig_joints graph))),
      LoadCodingParams = (\<lambda>name. Inr 0),
      SerializeCrossMwm = (\<lambda>transitions connectors params. Inr (length transitions))\<rparr>"

definition crossing_transition :: Transition where
  "crossing_transition =
     \<lparr>t_featureId = 7, t_segmentIdx = 0, t_roadMask = 7, t_oneWayMask = 0,
      t_forwardIsEnter = False, t_backPoint = \<lparr>px = 1 / 2, py = 9 / 10\<rparr>,
      t_frontPoint = \<lparr>px = 1 / 2, py = 11 / 10\<rparr>\<rparr>"

text \<open>
  The processor before and after the two features of the tile: the vertex \<open>(1,0)\<close> is
  shared, the other three vertices stand alone.
\<close>

definition example_processor0 :: Processor where
  "example_processor0 =
     \<lparr>m_maskBuilder = example_maskBuilder, m_posToJoint = [], m_masks = Map.empty\<rparr>"

definition example_processor :: Processor where
  "example_processor =
     \<lparr>m_maskBuilder = example_maskBuilder,
      m_posToJoint =
        [(0, [\<lparr>m_featureId = 0, m_pointId = 0\<rparr>]),
         (1000, [\<lparr>m_featureId = 0, m_pointId = 1\<rparr>, \<lparr>m_featureId = 1, m_pointId = 0\<rparr>]),
         (1001, [\<lparr>m_featureId = 1, m_pointId = 1\<rparr>])],
      m_masks = [0 \<mapsto> 7, 1 \<mapsto> 7]\<rparr>"

text \<open>
  Three variants of the collaborators: no car model for any country; a feature reader
  that raises an exception outside the \<open>RootException\<close> family; a serialiser of the
  routing section that raises a \<open>RootException\<close>.
\<close>

definition collaborators_without_car :: collaborators where
  "collaborators_without_car = example_collaborators\<lparr>GetCarModel := (\<lambda>country. None)\<rparr>"

definition collaborators_bad_alloc :: collaborators where
  "collaborators_bad_alloc =
     example_collaborators\<lparr>ForEachFromDat :=
       (\<lambda>name. ([], Some (StdException ''std::bad_alloc'')))\<rparr>"

definition collaborators_write_error :: collaborators where
  "collaborators_write_error =
     example_collaborators\<lparr>SerializeIndexGraph :=
       (\<lambda>graph masks. Inl (RootException ''Writer::WriteException''))\<rparr>"

text \<open>
  A connector with one enter and two exits: the wave from the enter reaches the first exit
  at distance \<open>100\<close> and never the second. Then the two transitions of the tile
  \<open>through.mwm\<close> and the connector every vehicle type has after the scan of that tile.
\<close>

definition example_connector :: CrossMwmConnector where
  "example_connector =
     \<lparr>m_enters = [\<lparr>s_featureId = 7, s_segmentIdx = 0, s_forward = True\<rparr>],
      m_exits = [\<lparr>s_featureId = 7, s_segmentIdx = 1, s_forward = True\<rparr>,
                 \<lparr>s_featureId = 9, s_segmentIdx = 0, s_forward = True\<rparr>],
      m_weights = Map.empty\<rparr>"

definition through_enter :: Transition where
  "through_enter =
     \<lparr>t_featureId = 7, t_segmentIdx = 0, t_roadMask = 7, t_oneWayMask = 0,
      t_forwardIsEnter = True, t_backPoint = \<lparr>px = 1 / 2, py = - 1 / 10\<rparr>,
      t_frontPoint = \<lparr>px = 1 / 2, py = 1 / 2\<rparr>\<rparr>"

definition through_exit :: Transition where
  "through_exit =
     \<lparr>t_featureId = 7, t_segmentIdx = 1, t_roadMask = 7, t_oneWayMask = 0,
      t_forwardIsEnter = False, t_backPoint = \<lparr>px = 1 / 2, py = 1 / 2\<rparr>,
      t_frontPoint = \<lparr>px = 1 / 2, py = 11 / 10\<rparr>\<rparr>"

definition through_connector :: CrossMwmConnector where
  "through_connector =
     \<lparr>m_enters = [\<lparr>s_featureId = 7, s_segmentIdx = 0, s_forward = True\<rparr>],
      m_exits = [\<lparr>s_featureId = 7, s_segmentIdx = 1, s_forward = True\<rparr>],
      m_weights = Map.empty\<rparr>"

section \<open>Junction equality\<close>

text \<open>
  Claim C4. Two junctions are equal exactly when their points are equal under the absolute
  epsilon \<open>1e-6\<close>, and replacing the altitude of either junction never changes the
  result of the comparison.
\<close>

theorem Junction_eq_epsilon_altitude:
  "(Junction_eq a b \<longleftrightarrow>
      AlmostEqualAbs_point (m_point a) (m_point b) (1 / 1000000)) \<and>
   (Junction_eq a b \<longleftrightarrow> AlmostEqualAbs a b) \<and>
   Junction_eq (a\<lparr>m_altitude := h\<rparr>) (b\<lparr>m_altitude := h'\<rparr>) = Junction_eq a b \<and>
   Junction_neq (a\<lparr>m_altitude := h\<rparr>) (b\<lparr>m_altitude := h'\<rparr>) = Junction_neq a b"
  by (simp add: Junction_eq_def Junction_neq_def AlmostEqualAbs_def PointD_eq_def
      GetPoint_def kPointsEqualEpsilon_def)

section \<open>The edge-loader helper calls\<close>

lemma ForEachEdge_loop_calls:
  "ForEachEdge_loop c js i calls = calls @ concat (map (calls_at c js) [i..<length js])"
proof (induction c js i calls rule: ForEachEdge_loop.induct)
  case (1 c js i calls)
  show ?case
  proof (cases "i < length js")
    case False
    then show ?thesis
      by (simp add: ForEachEdge_loop.simps [of c js i calls])
  next
    case True
    then have range: "[i..<length js] = i # [i + 1..<length js]"
      by (simp add: upt_conv_Cons)
    show ?thesis
    proof (cases "AlmostEqualAbs_point (GetPoint c) (GetPoint (js ! i)) kPointsEqualEpsilon")
      case False
      with True "1.IH"(1) range show ?thesis
        by (simp add: calls_at_def ForEachEdge_loop.simps [of c js i calls])
    next
      case match: True
      define calls1 where
        "calls1 = (if i + 1 < length js then calls @ [(i, js ! (i + 1), True)] else calls)"
      define calls2 where
        "calls2 = (if i > 0 then calls1 @ [(i - 1, js ! (i - 1), False)] else calls1)"
      have step: "ForEachEdge_loop c js i calls = ForEachEdge_loop c js (i + 1) calls2"
        using True match
        by (subst ForEachEdge_loop.simps) (simp add: calls1_def calls2_def)
      have rest: "ForEachEdge_loop c js (i + 1) calls2 =
          calls2 @ concat (map (calls_at c js) [i + 1..<length js])"
        using "1.IH"(2) [OF True _ calls1_def calls2_def] match by simp
      have here: "calls2 = calls @ calls_at c js i"
        using match by (simp add: calls1_def calls2_def calls_at_def)
      from rest have "ForEachEdge_loop c js (i + 1) calls2 =
          calls @ concat (map (calls_at c js) (i # [i + 1..<length js]))"
        by (simp add: here)
      with step range show ?thesis
        by simp
    qed
  qed
qed

text \<open>
  Claim C5. For a polyline and a cross junction, the calls of the helper are, vertex by
  vertex in index order: for a vertex \<open>i\<close> whose point is epsilon-equal to the cross, the
  call \<open>(i, successor, forward)\<close> when \<open>i + 1\<close> is a valid index, then the call
  \<open>(i - 1, predecessor, backward)\<close> when \<open>0 < i\<close>; for any other vertex, no call.
\<close>

theorem ForEachEdge_calls:
  "ForEachEdge cross roadInfo =
     concat (map (\<lambda>i.
        if AlmostEqualAbs_point (GetPoint cross) (GetPoint (m_junctions roadInfo ! i))
             (1 / 1000000)
        then (if i + 1 < length (m_junctions roadInfo)
              then [(i, m_junctions roadInfo ! (i + 1), True)] else []) @
             (if 0 < i then [(i - 1, m_junctions roadInfo ! (i - 1), False)] else [])
        else []) [0..<length (m_junctions roadInfo)])"
proof -
  have "calls_at cross (m_junctions roadInfo) = (\<lambda>i.
        if AlmostEqualAbs_point (GetPoint cross) (GetPoint (m_junctions roadInfo ! i))
             (1 / 1000000)
        then (if i + 1 < length (m_junctions roadInfo)
              then [(i, m_junctions roadInfo ! (i + 1), True)] else []) @
             (if 0 < i then [(i - 1, m_junctions roadInfo ! (i - 1), False)] else [])
        else [])"
    by (rule ext) (simp add: calls_at_def kPointsEqualEpsilon_def)
  then show ?thesis
    by (simp add: ForEachEdge_def ForEachEdge_loop_calls)
qed

section \<open>The border-crossing scan\<close>

lemma asserted_cast_Inr: "asserted_cast C v = Inr w \<Longrightarrow> w = of_nat v"
  by (simp add: asserted_cast_def split: if_splits)

lemma asserted_cast_small: "v < 2 ^ 32 \<Longrightarrow> asserted_cast C v = Inr (of_nat v)"
  by (simp add: asserted_cast_def unat_of_nat)

lemma scan_loop_result:
  "scan_loop C borders mm f fid (CalcRoadMask C mm f) n i prev st = Inr st' \<Longrightarrow>
   prev = RegionsContain borders (GetPointAt f (i - 1)) \<Longrightarrow>
   fst st' = fst st @ map (mk_transition C borders mm f fid) (filter (flips borders f) [i..<n])"
proof (induction C borders mm f fid "CalcRoadMask C mm f" n i prev st rule: scan_loop.induct)
  case (1 C borders mm f fid n i prev st)
  show ?case
  proof (cases "i < n")
    case False
    with "1.prems"(1) show ?thesis
      by (simp add: scan_loop.simps [of C borders mm f fid _ n i prev st])
  next
    case True
    then have range: "[i..<n] = i # [i + 1..<n]"
      by (simp add: upt_conv_Cons)
    define curr where "curr = RegionsContain borders (GetPointAt f i)"
    show ?thesis
    proof (cases "curr = prev")
      case same: True
      then have nf: "\<not> flips borders f i"
        using "1.prems"(2) by (simp add: flips_def curr_def)
      have "scan_loop C borders mm f fid (CalcRoadMask C mm f) n (i + 1) prev st = Inr st'"
        using "1.prems"(1) True same
        by (simp add: scan_loop.simps [of C borders mm f fid _ n i prev st] curr_def)
      from "1.hyps"(1) [OF True curr_def same this] same
      have "fst st' = fst st @ map (mk_transition C borders mm f fid) (filter (flips borders f) [i + 1..<n])"
        by (simp add: curr_def)
      with nf range show ?thesis by simp
    next
      case diff: False
      then have fl: "flips borders f i"
        using "1.prems"(2) by (simp add: flips_def curr_def)
      from "1.prems"(1) True diff obtain segmentIdx where
        cast: "asserted_cast C (i - 1) = Inr segmentIdx"
        by (cases "asserted_cast C (i - 1)")
           (simp_all add: scan_loop.simps [of C borders mm f fid _ n i prev st] curr_def)
      define oneWayMask where "oneWayMask = CalcOneWayMask C mm f"
      define transitions where "transitions = fst st @
                          [\<lparr>t_featureId = fid, t_segmentIdx = segmentIdx,
                            t_roadMask = CalcRoadMask C mm f, t_oneWayMask = oneWayMask,
                            t_forwardIsEnter = curr,
                            t_backPoint = GetPointAt f (i - 1),
                            t_frontPoint = GetPointAt f i\<rparr>]"
      define connectors where "connectors = AddToConnectors C (last transitions) 0 (snd st)"
      have step: "scan_loop C borders mm f fid (CalcRoadMask C mm f) n (i + 1) curr
                    (transitions, connectors) = Inr st'"
        using "1.prems"(1) True diff cast
        by (simp add: scan_loop.simps [of C borders mm f fid _ n i prev st] curr_def [symmetric]
            Let_def transitions_def connectors_def oneWayMask_def)
      from "1.hyps"(2) [OF True curr_def diff cast oneWayMask_def transitions_def connectors_def step]
      have "fst st' = transitions @ map (mk_transition C borders mm f fid) (filter (flips borders f) [i + 1..<n])"
        by (simp add: curr_def)
      moreover have "transitions = fst st @ [mk_transition C borders mm f fid i]"
        using asserted_cast_Inr [OF cast]
        by (simp add: transitions_def mk_transition_def oneWayMask_def curr_def)
      ultimately show ?thesis using fl range by simp
    qed
  qed
qed

lemma scan_loop_succeeds:
  "n \<le> 2 ^ 32 \<Longrightarrow> \<exists>st'. scan_loop C borders mm f fid rm n i prev st = Inr st'"
proof (induction C borders mm f fid rm n i prev st rule: scan_loop.induct)
  case (1 C borders mm f fid rm n i prev st)
  show ?case
  proof (cases "i < n")
    case False
    then show ?thesis
      by (simp add: scan_loop.simps [of C borders mm f fid rm n i prev st])
  next
    case True
    define curr where "curr = RegionsContain borders (GetPointAt f i)"
    show ?thesis
    proof (cases "curr = prev")
      case same: True
      from "1.IH"(1) [OF True curr_def same "1.prems"] True same show ?thesis
        by (simp add: scan_loop.simps [of C borders mm f fid rm n i prev st] curr_def)
    next
      case diff: False
      from True "1.prems" have "i - 1 < 2 ^ 32" by simp
      then have cast: "asserted_cast C (i - 1) = Inr (of_nat (i - 1))"
        by (rule asserted_cast_small)
      from "1.IH"(2) [OF True curr_def diff cast refl refl refl "1.prems"] True diff cast
      show ?thesis
        by (simp add: scan_loop.simps [of C borders mm f fid rm n i prev st]
            curr_def [symmetric] Let_def)
    qed
  qed
qed

lemma scan_feature_result:
  "scan_feature C borders mm st f fid = Inr st' \<Longrightarrow>
   fst st' = fst st @ claimed_transitions C borders mm f fid"
proof (cases "CalcRoadMask C mm f = 0 \<or> GetPointsCount f = 0")
  case True
  moreover assume "scan_feature C borders mm st f fid = Inr st'"
  ultimately show ?thesis
    by (auto simp add: scan_feature_def claimed_transitions_def Let_def)
next
  case False
  moreover assume "scan_feature C borders mm st f fid = Inr st'"
  ultimately have "scan_loop C borders mm f fid (CalcRoadMask C mm f) (GetPointsCount f) 1
      (RegionsContain borders (GetPointAt f 0)) st = Inr st'"
    by (simp add: scan_feature_def Let_def)
  from scan_loop_result [OF this] False show ?thesis
    by (simp add: claimed_transitions_def)
qed

lemma scan_feature_succeeds:
  "GetPointsCount f \<le> 2 ^ 32 \<Longrightarrow> \<exists>st'. scan_feature C borders mm st f fid = Inr st'"
  using scan_loop_succeeds [of "GetPointsCount f" C borders mm f fid]
  by (simp add: scan_feature_def Let_def)

lemma scan_features_result:
  "scan_features C borders mm st fs = Inr st' \<Longrightarrow>
   fst st' = fst st @ concat (map (\<lambda>(f, fid). claimed_transitions C borders mm f fid) fs)"
proof (induction fs arbitrary: st)
  case Nil
  then show ?case by simp
next
  case (Cons a fs)
  obtain f fid where a: "a = (f, fid)" by (cases a)
  from Cons.prems a obtain st1 where
    one: "scan_feature C borders mm st f fid = Inr st1" and
    rest: "scan_features C borders mm st1 fs = Inr st'"
    by (cases "scan_feature C borders mm st f fid") simp_all
  from Cons.IH [OF rest] scan_feature_result [OF one] a show ?case
    by simp
qed

lemma scan_features_succeeds:
  "\<forall>(f, fid) \<in> set fs. GetPointsCount f \<le> 2 ^ 32 \<Longrightarrow>
   \<exists>st'. scan_features C borders mm st fs = Inr st'"
proof (induction fs arbitrary: st)
  case Nil
  then show ?case by simp
next
  case (Cons a fs)
  obtain f fid where a: "a = (f, fid)" by (cases a)
  with Cons.prems have "GetPointsCount f \<le> 2 ^ 32" by simp
  from scan_feature_succeeds [OF this] obtain st1 where
    one: "scan_feature C borders mm st f fid = Inr st1" by blast
  from Cons.prems have "\<forall>(f, fid) \<in> set fs. GetPointsCount f \<le> 2 ^ 32" by simp
  from Cons.IH [OF this, of st1] one a show ?case by simp
qed

lemma claimed_transitions_cross:
  "t \<in> set (claimed_transitions C borders mm f fid) \<Longrightarrow>
   RegionsContain borders (t_backPoint t) \<noteq> RegionsContain borders (t_frontPoint t)"
  by (auto simp add: claimed_transitions_def mk_transition_def flips_def split: if_splits)

lemma claimed_transitions_masks:
  "t \<in> set (claimed_transitions C borders mm f fid) \<Longrightarrow>
   t_roadMask t = CalcRoadMask C mm f \<and> t_oneWayMask t = CalcOneWayMask C mm f \<and> t_featureId t = fid"
  by (auto simp add: claimed_transitions_def mk_transition_def split: if_splits)

text \<open>
  Claim C1. Let every feature handed to the scan have at most \<open>2^32\<close> points, so that
  every segment index fits the 32-bit field. Then the scan ends without a failure and
  appends, feature by feature, exactly the claimed transitions: for a feature with a
  non-zero road mask, one transition for each vertex \<open>1 \<le> i < pointsCount\<close> at which the
  containment in the borders differs from that of the vertex before, and no other. The
  transition for the vertex \<open>i\<close> carries the segment index \<open>i - 1\<close>, the containment of
  \<open>p[i]\<close> as its enter side, and the points \<open>p[i - 1]\<close> and \<open>p[i]\<close>. A feature with no
  point or a zero road mask leaves the state as it is and fails nowhere.
\<close>

theorem scan_emits_the_crossings:
  assumes "\<forall>(f, fid) \<in> set features. GetPointsCount f \<le> 2 ^ 32"
  shows "(\<exists>connectors'.
            scan_features C borders maskMaker (transitions, connectors) features =
              Inr (transitions @
                   concat (map (\<lambda>(f, fid). claimed_transitions C borders maskMaker f fid) features),
                   connectors')) \<and>
         (\<forall>(f, fid) \<in> set features. \<forall>i. i < GetPointsCount f \<longrightarrow>
            unat (t_segmentIdx (mk_transition C borders maskMaker f fid i)) = i - 1) \<and>
         (\<forall>f fid st. CalcRoadMask C maskMaker f = 0 \<or> GetPointsCount f = 0 \<longrightarrow>
            scan_feature C borders maskMaker st f fid = Inr st \<and>
            claimed_transitions C borders maskMaker f fid = [])"
proof (intro conjI)
  from scan_features_succeeds [OF assms] obtain st' where
    ok: "scan_features C borders maskMaker (transitions, connectors) features = Inr st'"
    by blast
  from scan_features_result [OF ok] have "st' = (transitions @
      concat (map (\<lambda>(f, fid). claimed_transitions C borders maskMaker f fid) features), snd st')"
    by (cases st') simp
  with ok show "\<exists>connectors'.
            scan_features C borders maskMaker (transitions, connectors) features =
              Inr (transitions @
                   concat (map (\<lambda>(f, fid). claimed_transitions C borders maskMaker f fid) features),
                   connectors')"
    by metis
next
  show "\<forall>(f, fid) \<in> set features. \<forall>i. i < GetPointsCount f \<longrightarrow>
            unat (t_segmentIdx (mk_transition C borders maskMaker f fid i)) = i - 1"
  proof (clarify)
    fix f fid i
    assume "(f, fid) \<in> set features" and "i < GetPointsCount f"
    with assms have "i - 1 < 2 ^ 32" by fastforce
    then show "unat (t_segmentIdx (mk_transition C borders maskMaker f fid i)) = i - 1"
      by (simp add: mk_transition_def unat_of_nat)
  qed
next
  show "\<forall>f fid st. CalcRoadMask C maskMaker f = 0 \<or> GetPointsCount f = 0 \<longrightarrow>
            scan_feature C borders maskMaker st f fid = Inr st \<and>
            claimed_transitions C borders maskMaker f fid = []"
    by (auto simp add: scan_feature_def claimed_transitions_def Let_def)
qed

text \<open>
  Claim C7. Every transition the scan emits has one of its two recorded points inside the
  border regions and the other outside: the containment test differs on the two points.
\<close>

theorem transition_points_on_both_sides:
  assumes "scan_features C borders maskMaker (transitions, connectors) features =
             Inr (transitions', connectors')"
  shows "\<forall>t \<in> set (drop (length transitions) transitions').
           RegionsContain borders (t_backPoint t) \<noteq> RegionsContain borders (t_frontPoint t)"
  using scan_features_result [OF assms] claimed_transitions_cross
  by fastforce

text \<open>
  Claim C10. All the transitions emitted for a feature carry the road mask and the one-way
  mask computed for the feature as a whole, whichever segment crosses the border.
\<close>

theorem transition_masks_of_feature:
  assumes "scan_feature C borders maskMaker (transitions, connectors) f featureId =
             Inr (transitions', connectors')"
  shows "\<forall>t \<in> set (drop (length transitions) transitions').
           t_roadMask t = CalcRoadMask C maskMaker f \<and>
           t_oneWayMask t = CalcOneWayMask C maskMaker f"
  using scan_feature_result [OF assms] claimed_transitions_masks
  by fastforce

subsection \<open>The scan on a feature that leaves the unit square\<close>

lemma example_masks:
  "CalcRoadMask example_collaborators example_maskBuilder feature_crossing = 7"
  "CalcOneWayMask example_collaborators example_maskBuilder feature_crossing = 0"
  by (simp_all add: CalcRoadMask_def CalcOneWayMask_def CalcMask_def example_collaborators_def
      example_maskBuilder_def example_model_def feature_crossing_def)

lemma example_contains:
  "RegionsContain [unit_square] (GetPointAt feature_crossing 0)"
  "\<not> RegionsContain [unit_square] (GetPointAt feature_crossing 1)"
  "\<not> RegionsContain [unit_square] (GetPointAt feature_crossing (Suc 0))"
  by (simp_all add: RegionsContain_def unit_square_def GetPointAt_def feature_crossing_def)

lemma example_claimed:
  "claimed_transitions example_collaborators [unit_square] example_maskBuilder feature_crossing 7
     = [crossing_transition]"
proof -
  have n: "[1..<GetPointsCount feature_crossing] = [Suc 0]"
    by (simp add: GetPointsCount_def feature_crossing_def)
  have p: "GetPointAt feature_crossing 0 = \<lparr>px = 1 / 2, py = 9 / 10\<rparr>"
    "GetPointAt feature_crossing (Suc 0) = \<lparr>px = 1 / 2, py = 11 / 10\<rparr>"
    by (simp_all add: feature_crossing_def GetPointAt_def)
  show ?thesis
    unfolding claimed_transitions_def n
    by (simp add: example_masks flips_def mk_transition_def crossing_transition_def p
        RegionsContain_def unit_square_def)
qed

lemma example_connectors:
  "AddToConnectors example_collaborators crossing_transition 0
     (replicate 3 CrossMwmConnector_default) =
   replicate 3 (CrossMwmConnector_default\<lparr>m_exits :=
      [\<lparr>s_featureId = 7, s_segmentIdx = 0, s_forward = True\<rparr>]\<rparr>)"
  by (simp add: AddToConnectors.simps numeral_3_eq_3 example_collaborators_def
      crossing_transition_def CrossMwmConnector_default_def)

lemma example_scan_feature:
  "scan_feature example_collaborators [unit_square] example_maskBuilder
     ([], replicate 3 CrossMwmConnector_default) feature_crossing 7 =
   Inr ([crossing_transition], replicate 3 (CrossMwmConnector_default\<lparr>m_exits :=
      [\<lparr>s_featureId = 7, s_segmentIdx = 0, s_forward = True\<rparr>]\<rparr>))"
proof -
  have n: "GetPointsCount feature_crossing = 2"
    by (simp add: GetPointsCount_def feature_crossing_def)
  have t: "\<lparr>t_featureId = 7, t_segmentIdx = 0, t_roadMask = 7, t_oneWayMask = 0,
      t_forwardIsEnter = False, t_backPoint = GetPointAt feature_crossing 0,
      t_frontPoint = GetPointAt feature_crossing (Suc 0)\<rparr> = crossing_transition"
    by (simp add: crossing_transition_def feature_crossing_def GetPointAt_def)
  show ?thesis
    by (simp add: scan_feature_def example_masks n scan_loop.simps example_contains
        asserted_cast_def t example_connectors)
qed

lemma example_scan:
  "scan_features example_collaborators [unit_square] example_maskBuilder
     ([], replicate 3 CrossMwmConnector_default) [(feature_crossing, 7)] =
   Inr ([crossing_transition], replicate 3 (CrossMwmConnector_default\<lparr>m_exits :=
      [\<lparr>s_featureId = 7, s_segmentIdx = 0, s_forward = True\<rparr>]\<rparr>))"
  by (simp add: example_scan_feature)

theorem scan_emits_the_crossings_witness:
  "GetPointsCount feature_crossing \<le> 2 ^ 32 \<and>
   (\<exists>connectors'.
      scan_features example_collaborators [unit_square] example_maskBuilder
        ([], replicate 3 CrossMwmConnector_default) [(feature_crossing, 7)] =
      Inr ([crossing_transition], connectors')) \<and>
   unat (t_segmentIdx crossing_transition) = 1 - 1 \<and>
   scan_feature example_collaborators [unit_square] example_maskBuilder ([], [])
     \<lparr>f_types = [1], f_points = []\<rparr> 3 = Inr ([], [])"
proof -
  have h: "\<forall>(f, fid) \<in> set [(feature_crossing, 7::32 word)]. GetPointsCount f \<le> 2 ^ 32"
    by (simp add: GetPointsCount_def feature_crossing_def)
  have m: "mk_transition example_collaborators [unit_square] example_maskBuilder
      feature_crossing 7 1 = crossing_transition"
    by (simp add: mk_transition_def example_masks example_contains crossing_transition_def)
       (simp add: feature_crossing_def GetPointAt_def)
  from scan_emits_the_crossings [OF h, of example_collaborators "[unit_square]"
      example_maskBuilder "[]" "replicate 3 CrossMwmConnector_default"]
  show ?thesis
    by (simp add: example_claimed m [symmetric] GetPointsCount_def)
       (simp add: feature_crossing_def)
qed

theorem transition_points_on_both_sides_witness:
  "scan_features example_collaborators [unit_square] example_maskBuilder
     ([], replicate 3 CrossMwmConnector_default) [(feature_crossing, 7)] =
   Inr ([crossing_transition], replicate 3 (CrossMwmConnector_default\<lparr>m_exits :=
      [\<lparr>s_featureId = 7, s_segmentIdx = 0, s_forward = True\<rparr>]\<rparr>)) \<and>
   RegionsContain [unit_square] (t_backPoint crossing_transition) \<and>
   \<not> RegionsContain [unit_square] (t_frontPoint crossing_transition)"
  using transition_points_on_both_sides [OF example_scan] example_scan
  by (simp add: RegionsContain_def unit_square_def crossing_transition_def)

theorem transition_masks_of_feature_witness:
  "scan_feature example_collaborators [unit_square] example_maskBuilder
     ([], replicate 3 CrossMwmConnector_default) feature_crossing 7 =
   Inr ([crossing_transition], replicate 3 (CrossMwmConnector_default\<lparr>m_exits :=
      [\<lparr>s_featureId = 7, s_segmentIdx = 0, s_forward = True\<rparr>]\<rparr>)) \<and>
   t_roadMask crossing_transition =
     CalcRoadMask example_collaborators example_maskBuilder feature_crossing \<and>
   t_oneWayMask crossing_transition =
     CalcOneWayMask example_collaborators example_maskBuilder feature_crossing"
  using transition_masks_of_feature [OF example_scan_feature] example_scan_feature
  by simp

section \<open>The index graph builder\<close>

lemma BuildGraph_loop_filter:
  "BuildGraph_loop al joints = joints @ map snd (filter (\<lambda>it. 2 \<le> GetSize (snd it)) al)"
  by (induction al arbitrary: joints) auto

lemma map_of_AddPointAt:
  "map_of (AddPointAt k rp al) = (map_of al)(k \<mapsto> joint_at al k @ [rp])"
  by (induction al) (auto simp add: joint_at_def AddPoint_def)

lemma keys_AddPointAt:
  "fst ` set (AddPointAt k rp al) = insert k (fst ` set al)"
proof (induction al)
  case Nil
  show ?case by simp
next
  case (Cons a al)
  obtain k' j where a: "a = (k', j)" by (cases a)
  show ?case
  proof (cases "k' = k")
    case True
    with a show ?thesis by simp
  next
    case False
    with a Cons.IH show ?thesis by (simp add: insert_commute)
  qed
qed

lemma distinct_AddPointAt:
  "distinct (map fst al) \<Longrightarrow> distinct (map fst (AddPointAt k rp al))"
proof (induction al)
  case Nil
  then show ?case by simp
next
  case (Cons a al)
  obtain k' j where a: "a = (k', j)" by (cases a)
  with Cons show ?case
    using keys_AddPointAt [of k rp al] by auto
qed

lemma joint_at_AddPointAt:
  "joint_at (AddPointAt k rp al) k' =
     (if k' = k then joint_at al k @ [rp] else joint_at al k')"
  by (simp add: joint_at_def [of "AddPointAt k rp al"] map_of_AddPointAt)
     (simp add: joint_at_def)

lemma joint_at_add_vertices:
  "joint_at (add_vertices kvs al) k = joint_at al k @ map snd (filter (\<lambda>kv. fst kv = k) kvs)"
  unfolding add_vertices_def
  by (induction kvs arbitrary: al) (auto simp add: joint_at_AddPointAt)

lemma distinct_add_vertices:
  "distinct (map fst al) \<Longrightarrow> distinct (map fst (add_vertices kvs al))"
  unfolding add_vertices_def
  by (induction kvs arbitrary: al) (auto simp add: distinct_AddPointAt)

lemma add_vertices_append:
  "add_vertices (xs @ ys) al = add_vertices ys (add_vertices xs al)"
  by (simp add: add_vertices_def)

lemma checked_cast_Inr: "checked_cast C v = Inr w \<Longrightarrow> w = of_nat v \<and> v < 2 ^ 32"
  by (auto simp add: checked_cast_def unat_of_nat split: if_splits)

lemma ProcessFeature_loop_result:
  "ProcessFeature_loop C f fid i al = Inr al' \<Longrightarrow>
   al' = add_vertices
           (map (\<lambda>i. (PointToInt64 C (GetPointAt f i), \<lparr>m_featureId = fid, m_pointId = of_nat i\<rparr>))
              [i..<GetPointsCount f]) al \<and>
   (i < GetPointsCount f \<longrightarrow> GetPointsCount f \<le> 2 ^ 32)"
proof (induction C f fid i al rule: ProcessFeature_loop.induct)
  case (1 C f fid i al)
  show ?case
  proof (cases "i < GetPointsCount f")
    case False
    with "1.prems" show ?thesis
      by (simp add: ProcessFeature_loop.simps [of C f fid i al] add_vertices_def)
  next
    case True
    then have range: "[i..<GetPointsCount f] = i # [i + 1..<GetPointsCount f]"
      by (simp add: upt_conv_Cons)
    from "1.prems" True obtain pointId where
      cast: "checked_cast C i = Inr pointId"
      by (cases "checked_cast C i") (simp_all add: ProcessFeature_loop.simps [of C f fid i al])
    note c = checked_cast_Inr [OF cast]
    have step: "ProcessFeature_loop C f fid (i + 1)
        (AddPointAt (PointToInt64 C (GetPointAt f i)) \<lparr>m_featureId = fid, m_pointId = pointId\<rparr> al)
        = Inr al'"
      using "1.prems" True cast
      by (simp add: ProcessFeature_loop.simps [of C f fid i al])
    note ih = "1.IH" [OF True refl cast step]
    have "GetPointsCount f \<le> 2 ^ 32"
    proof (cases "i + 1 < GetPointsCount f")
      case True
      with ih show ?thesis by simp
    next
      case False
      with c \<open>i < GetPointsCount f\<close> show ?thesis by simp
    qed
    moreover have "al' = add_vertices
           (map (\<lambda>i. (PointToInt64 C (GetPointAt f i), \<lparr>m_featureId = fid, m_pointId = of_nat i\<rparr>))
              [i..<GetPointsCount f]) al"
      using ih c by (simp add: range add_vertices_def)
    ultimately show ?thesis by simp
  qed
qed

lemma ProcessFeature_result:
  assumes "ProcessFeature C P f fid = Inr P'"
  shows "m_posToJoint P' =
           add_vertices (feature_vertices C (m_maskBuilder P) (f, fid)) (m_posToJoint P) \<and>
         m_maskBuilder P' = m_maskBuilder P \<and>
         (CalcRoadMask C (m_maskBuilder P) f \<noteq> 0 \<longrightarrow> GetPointsCount f \<le> 2 ^ 32)"
proof (cases "CalcRoadMask C (m_maskBuilder P) f = 0")
  case True
  with assms show ?thesis
    by (simp add: ProcessFeature_def feature_vertices_def add_vertices_def)
next
  case False
  with assms obtain al where
    loop: "ProcessFeature_loop C f fid 0 (m_posToJoint P) = Inr al" and
    P': "P' = P\<lparr>m_masks := (m_masks P)(fid \<mapsto> CalcRoadMask C (m_maskBuilder P) f),
                 m_posToJoint := al\<rparr>"
    by (cases "ProcessFeature_loop C f fid 0 (m_posToJoint P)")
       (simp_all add: ProcessFeature_def Let_def)
  from ProcessFeature_loop_result [OF loop] False P' show ?thesis
    by (cases "GetPointsCount f = 0") (simp_all add: feature_vertices_def)
qed

lemma ProcessFeatures_result:
  "ProcessFeatures C P fs = Inr P' \<Longrightarrow>
   m_posToJoint P' =
     add_vertices (concat (map (feature_vertices C (m_maskBuilder P)) fs)) (m_posToJoint P) \<and>
   m_maskBuilder P' = m_maskBuilder P \<and>
   (\<forall>(f, fid) \<in> set fs.
      CalcRoadMask C (m_maskBuilder P) f \<noteq> 0 \<longrightarrow> GetPointsCount f \<le> 2 ^ 32)"
proof (induction fs arbitrary: P)
  case Nil
  then show ?case by (simp add: add_vertices_def)
next
  case (Cons a fs)
  obtain f fid where a: "a = (f, fid)" by (cases a)
  from Cons.prems a obtain P1 where
    one: "ProcessFeature C P f fid = Inr P1" and
    rest: "ProcessFeatures C P1 fs = Inr P'"
    by (cases "ProcessFeature C P f fid") simp_all
  from ProcessFeature_result [OF one] Cons.IH [OF rest] a show ?case
    by (simp add: add_vertices_append)
qed

lemma same_joint_joint_at:
  assumes "distinct (map fst al)"
  shows "list_ex (\<lambda>it. a \<in> set (snd it) \<and> b \<in> set (snd it)) al \<longleftrightarrow>
         (\<exists>k. a \<in> set (joint_at al k) \<and> b \<in> set (joint_at al k))"
proof
  assume "list_ex (\<lambda>it. a \<in> set (snd it) \<and> b \<in> set (snd it)) al"
  then obtain k j where "(k, j) \<in> set al" and ab: "a \<in> set j" "b \<in> set j"
    by (auto simp add: list_ex_iff)
  with assms have "map_of al k = Some j" by simp
  then have "joint_at al k = j" by (simp add: joint_at_def)
  with ab show "\<exists>k. a \<in> set (joint_at al k) \<and> b \<in> set (joint_at al k)" by blast
next
  assume "\<exists>k. a \<in> set (joint_at al k) \<and> b \<in> set (joint_at al k)"
  then obtain k where ab: "a \<in> set (joint_at al k)" "b \<in> set (joint_at al k)" by blast
  then obtain j where j: "map_of al k = Some j"
    by (cases "map_of al k") (simp_all add: joint_at_def)
  then have "(k, j) \<in> set al" by (rule map_of_SomeD)
  moreover from j ab have "a \<in> set j" "b \<in> set j" by (simp_all add: joint_at_def)
  ultimately show "list_ex (\<lambda>it. a \<in> set (snd it) \<and> b \<in> set (snd it)) al"
    unfolding list_ex_iff by (intro bexI [of _ "(k, j)"]) simp_all
qed

lemma same_joint_vertices:
  "list_ex (\<lambda>it. a \<in> set (snd it) \<and> b \<in> set (snd it)) (add_vertices kvs []) \<longleftrightarrow>
   (\<exists>k. (k, a) \<in> set kvs \<and> (k, b) \<in> set kvs)"
proof -
  have d: "distinct (map fst (add_vertices kvs []))"
    by (rule distinct_add_vertices) simp
  have e: "joint_at [] k = []" for k
    by (simp add: joint_at_def)
  have "x \<in> set (joint_at (add_vertices kvs []) k) \<longleftrightarrow> (k, x) \<in> set kvs" for k x
    unfolding joint_at_add_vertices e by force
  with same_joint_joint_at [OF d] show ?thesis by simp
qed

lemma feature_vertices_mem:
  "(k, rp) \<in> set (concat (map (feature_vertices C mb) fs)) \<longleftrightarrow>
   (\<exists>f fid i. (f, fid) \<in> set fs \<and> CalcRoadMask C mb f \<noteq> 0 \<and> i < GetPointsCount f \<and>
      k = PointToInt64 C (GetPointAt f i) \<and> rp = \<lparr>m_featureId = fid, m_pointId = of_nat i\<rparr>)"
proof (induction fs)
  case Nil
  show ?case by simp
next
  case (Cons a fs)
  obtain f fid where a: "a = (f, fid)" by (cases a)
  have "(k, rp) \<in> set (feature_vertices C mb (f, fid)) \<longleftrightarrow>
      (CalcRoadMask C mb f \<noteq> 0 \<and> (\<exists>i. i < GetPointsCount f \<and>
      k = PointToInt64 C (GetPointAt f i) \<and> rp = \<lparr>m_featureId = fid, m_pointId = of_nat i\<rparr>))"
    by (auto simp add: feature_vertices_def)
  with Cons.IH a show ?case
    by (simp only: list.map concat.simps set_append Un_iff set_simps insert_iff) blast
qed

lemma distinct_snd_unique:
  "distinct (map snd xs) \<Longrightarrow> (a, k) \<in> set xs \<Longrightarrow> (b, k) \<in> set xs \<Longrightarrow> a = b"
  by (induction xs) force+

lemma of_nat_32_inj:
  "i < 2 ^ 32 \<Longrightarrow> j < 2 ^ 32 \<Longrightarrow> (of_nat i :: 32 word) = of_nat j \<Longrightarrow> i = j"
proof -
  assume i: "i < 2 ^ 32" and j: "j < 2 ^ 32" and eq: "(of_nat i :: 32 word) = of_nat j"
  from i have a: "unat (of_nat i :: 32 word) = i"
    by (simp add: unat_of_nat)
  from j have b: "unat (of_nat j :: 32 word) = j"
    by (simp add: unat_of_nat)
  from eq have "unat (of_nat i :: 32 word) = unat (of_nat j :: 32 word)"
    by (rule arg_cong)
  then show "i = j"
    by (simp only: a b)
qed

text \<open>
  Claim C6. After the processor has been built for the country and has processed the
  features of the tile without a failure, the reader having given every feature its own
  identifier, two vertices of road features lie in the same joint exactly when the
  64-bit location keys of their points are equal. The point of a vertex enters the
  decision through \<open>PointToInt64\<close> alone.
\<close>

theorem joints_coalesce_by_location_key:
  assumes ctor: "Processor_ctor C country = Inr P0"
    and run: "snd (ProcessAllFeatures C P0 filename) = Inr P"
    and ids: "distinct (map snd (fst (ForEachFromDat C filename)))"
    and v1: "(f1, id1) \<in> set (fst (ForEachFromDat C filename))"
      "CalcRoadMask C (m_maskBuilder P0) f1 \<noteq> 0" "i1 < GetPointsCount f1"
    and v2: "(f2, id2) \<in> set (fst (ForEachFromDat C filename))"
      "CalcRoadMask C (m_maskBuilder P0) f2 \<noteq> 0" "i2 < GetPointsCount f2"
  shows "same_joint P \<lparr>m_featureId = id1, m_pointId = of_nat i1\<rparr>
                      \<lparr>m_featureId = id2, m_pointId = of_nat i2\<rparr> \<longleftrightarrow>
         PointToInt64 C (GetPointAt f1 i1) = PointToInt64 C (GetPointAt f2 i2)"
proof -
  define fs where "fs = fst (ForEachFromDat C filename)"
  define mb where "mb = m_maskBuilder P0"
  define kvs where "kvs = concat (map (feature_vertices C mb) fs)"
  from ctor have empty: "m_posToJoint P0 = []"
    by (auto simp add: Processor_ctor_def split: sum.splits)
  from run have ok: "ProcessFeatures C P0 fs = Inr P"
    by (auto simp add: ProcessAllFeatures_def fs_def split: prod.splits sum.splits option.splits)
  note res = ProcessFeatures_result [OF ok]
  from res empty have table: "m_posToJoint P = add_vertices kvs []"
    by (simp add: kvs_def mb_def)
  from res have small: "\<And>f fid. (f, fid) \<in> set fs \<Longrightarrow> CalcRoadMask C mb f \<noteq> 0 \<Longrightarrow>
      GetPointsCount f \<le> 2 ^ 32"
    by (auto simp add: mb_def)
  have unique: "k = PointToInt64 C (GetPointAt f i)"
    if f: "(f, fid) \<in> set fs" "CalcRoadMask C mb f \<noteq> 0" "i < GetPointsCount f"
      and k: "(k, \<lparr>m_featureId = fid, m_pointId = of_nat i\<rparr>) \<in> set kvs" for k f fid i
  proof -
    from k obtain f' fid' i' where
      f': "(f', fid') \<in> set fs" "CalcRoadMask C mb f' \<noteq> 0" "i' < GetPointsCount f'" and
      k': "k = PointToInt64 C (GetPointAt f' i')" and
      eq: "\<lparr>m_featureId = fid, m_pointId = of_nat i\<rparr> =
           \<lparr>m_featureId = fid', m_pointId = of_nat i'\<rparr>"
      unfolding kvs_def feature_vertices_mem by blast
    from eq have fid: "fid' = fid" and w: "(of_nat i :: 32 word) = of_nat i'" by simp_all
    from ids f(1) f'(1) fid have "f' = f"
      unfolding fs_def [symmetric] by (auto dest: distinct_snd_unique)
    moreover from small [OF f(1,2)] f(3) have "i < 2 ^ 32" by simp
    moreover from small [OF f'(1,2)] f'(3) have "i' < 2 ^ 32" by simp
    ultimately show ?thesis using k' of_nat_32_inj [OF _ _ w] by simp
  qed
  have m1: "(PointToInt64 C (GetPointAt f1 i1), \<lparr>m_featureId = id1, m_pointId = of_nat i1\<rparr>)
      \<in> set kvs"
    unfolding kvs_def feature_vertices_mem using v1 by (auto simp add: fs_def mb_def)
  have m2: "(PointToInt64 C (GetPointAt f2 i2), \<lparr>m_featureId = id2, m_pointId = of_nat i2\<rparr>)
      \<in> set kvs"
    unfolding kvs_def feature_vertices_mem using v2 by (auto simp add: fs_def mb_def)
  have u1: "\<And>k. (k, \<lparr>m_featureId = id1, m_pointId = of_nat i1\<rparr>) \<in> set kvs \<Longrightarrow>
      k = PointToInt64 C (GetPointAt f1 i1)"
    using unique [of f1 id1 i1] v1 by (simp add: fs_def mb_def)
  have u2: "\<And>k. (k, \<lparr>m_featureId = id2, m_pointId = of_nat i2\<rparr>) \<in> set kvs \<Longrightarrow>
      k = PointToInt64 C (GetPointAt f2 i2)"
    using unique [of f2 id2 i2] v2 by (simp add: fs_def mb_def)
  show ?thesis
    unfolding same_joint_def table same_joint_vertices
    using m1 m2 u1 u2 by metis
qed

lemma example_ctor:
  "Processor_ctor example_collaborators country = Inr example_processor0"
  by (simp add: Processor_ctor_def VehicleMaskBuilder_ctor_def example_collaborators_def
      example_processor0_def example_maskBuilder_def)

lemma example_road_masks:
  "CalcRoadMask example_collaborators example_maskBuilder feature_A = 7"
  "CalcRoadMask example_collaborators example_maskBuilder feature_B = 7"
  by (simp_all add: CalcRoadMask_def CalcMask_def example_collaborators_def
      example_maskBuilder_def example_model_def feature_A_def feature_B_def)

lemma example_keys:
  "PointToInt64 example_collaborators (GetPointAt feature_A 0) = 0"
  "PointToInt64 example_collaborators (GetPointAt feature_A (Suc 0)) = 1000"
  "PointToInt64 example_collaborators (GetPointAt feature_B 0) = 1000"
  "PointToInt64 example_collaborators (GetPointAt feature_B (Suc 0)) = 1001"
  by (simp_all add: example_collaborators_def GetPointAt_def feature_A_def feature_B_def)

lemma example_counts:
  "GetPointsCount feature_A = 2" "GetPointsCount feature_B = 2"
  by (simp_all add: GetPointsCount_def feature_A_def feature_B_def)

lemma example_features:
  "ForEachFromDat example_collaborators ''tile.mwm'' =
     ([(feature_A, 0), (feature_B, 1)], None)"
  by (simp add: example_collaborators_def)

lemma example_process:
  "ProcessAllFeatures example_collaborators example_processor0 ''tile.mwm'' =
     ([FileRead ''tile.mwm''], Inr example_processor)"
  by (simp add: ProcessAllFeatures_def example_features ProcessFeature_def
      example_processor0_def example_road_masks ProcessFeature_loop.simps example_counts
      example_keys checked_cast_def AddPoint_def example_processor_def)

theorem joints_coalesce_by_location_key_witness:
  "Processor_ctor example_collaborators ''Country'' = Inr example_processor0 \<and>
   snd (ProcessAllFeatures example_collaborators example_processor0 ''tile.mwm'') =
     Inr example_processor \<and>
   same_joint example_processor \<lparr>m_featureId = 0, m_pointId = 1\<rparr>
     \<lparr>m_featureId = 1, m_pointId = 0\<rparr> \<and>
   PointToInt64 example_collaborators (GetPointAt feature_A 1) =
     PointToInt64 example_collaborators (GetPointAt feature_B 0) \<and>
   \<not> same_joint example_processor \<lparr>m_featureId = 0, m_pointId = 0\<rparr>
     \<lparr>m_featureId = 1, m_pointId = 1\<rparr> \<and>
   PointToInt64 example_collaborators (GetPointAt feature_A 0) \<noteq>
     PointToInt64 example_collaborators (GetPointAt feature_B 1)"
proof -
  have run: "snd (ProcessAllFeatures example_collaborators example_processor0 ''tile.mwm'') =
      Inr example_processor"
    by (simp add: example_process)
  have ids: "distinct (map snd (fst (ForEachFromDat example_collaborators ''tile.mwm'')))"
    by (simp add: example_features)
  have a: "(feature_A, 0) \<in> set (fst (ForEachFromDat example_collaborators ''tile.mwm''))"
    and b: "(feature_B, 1) \<in> set (fst (ForEachFromDat example_collaborators ''tile.mwm''))"
    by (simp_all add: example_features)
  have ma: "CalcRoadMask example_collaborators (m_maskBuilder example_processor0) feature_A \<noteq> 0"
    and mb: "CalcRoadMask example_collaborators (m_maskBuilder example_processor0) feature_B \<noteq> 0"
    by (simp_all add: example_processor0_def example_road_masks)
  have c: "(0::nat) < GetPointsCount feature_A" "1 < GetPointsCount feature_A"
    "0 < GetPointsCount feature_B" "1 < GetPointsCount feature_B"
    by (simp_all add: example_counts)
  from joints_coalesce_by_location_key [OF example_ctor run ids a ma c(2) b mb c(3)]
    joints_coalesce_by_location_key [OF example_ctor run ids a ma c(1) b mb c(4)]
  show ?thesis
    by (simp add: example_ctor run example_keys)
qed

text \<open>
  Claim C3. The joint table handed to \<open>Import\<close> holds exactly the joints of the
  processor with at least two members: each of them once, in the order of the table, and
  no joint with fewer than two members.
\<close>

theorem BuildGraph_imports_joints_of_size_two:
  "BuildGraph P graph = Import graph (BuildGraph_joints P) \<and>
   ig_joints (BuildGraph P graph) = BuildGraph_joints P \<and>
   BuildGraph_joints P = map snd (filter (\<lambda>it. 2 \<le> GetSize (snd it)) (m_posToJoint P)) \<and>
   set (BuildGraph_joints P) =
     {joint. (\<exists>key. (key, joint) \<in> set (m_posToJoint P)) \<and> 2 \<le> GetSize joint}"
  by (force simp add: BuildGraph_def BuildGraph_joints_def BuildGraph_loop_filter Import_def)

theorem BuildGraph_imports_joints_of_size_two_witness:
  "ig_joints (BuildGraph example_processor IndexGraph_default) =
     [[\<lparr>m_featureId = 0, m_pointId = 1\<rparr>, \<lparr>m_featureId = 1, m_pointId = 0\<rparr>]]"
  using BuildGraph_imports_joints_of_size_two [of example_processor IndexGraph_default]
  by (simp add: example_processor_def GetSize_def Import_def)

section \<open>Failures of the build entry points\<close>

lemma ctor_missing_model:
  "GetPedestrianModel C country = None \<or> GetBicycleModel C country = None \<or>
   GetCarModel C country = None \<Longrightarrow>
   VehicleMaskBuilder_ctor C country = Inl (OnAssertFailed C)"
  by (auto simp add: VehicleMaskBuilder_ctor_def split: option.splits)

text \<open>
  Claim C9, as amended. If one of the three vehicle models is unavailable for the country,
  the construction of the mask builder fails: the failed \<open>CHECK\<close> hands over to the
  assert handler. In \<open>BuildRoutingIndex\<close> this happens before any file is touched. In
  \<open>CalcCrossMwmTransitions\<close> the border file is loaded first, and the construction fails
  after that and before the features of the tile are read.
\<close>

theorem missing_model_fails_construction:
  assumes "GetPedestrianModel C country = None \<or> GetBicycleModel C country = None \<or>
           GetCarModel C country = None"
  shows "VehicleMaskBuilder_ctor C country = Inl (OnAssertFailed C) \<and>
         BuildRoutingIndex_try C filename country = ([], Inl (OnAssertFailed C)) \<and>
         list_all (\<lambda>ev. \<not> is_file_event ev) (fst (BuildRoutingIndex C filename country)) \<and>
         (\<forall>borders. LoadBorders C (polyFile_of path country) = Inr borders \<longrightarrow>
            CalcCrossMwmTransitions C path mwmFile country st =
              ([FileRead (polyFile_of path country)], Inl (OnAssertFailed C)))"
proof -
  note c = ctor_missing_model [OF assms]
  then have t: "BuildRoutingIndex_try C filename country = ([], Inl (OnAssertFailed C))"
    by (simp add: BuildRoutingIndex_try_def Processor_ctor_def)
  have "list_all (\<lambda>ev. \<not> is_file_event ev) (fst (BuildRoutingIndex C filename country))"
    by (simp add: BuildRoutingIndex_def t is_file_event_def
        split: failure.splits exn.splits)
  moreover have "\<forall>borders. LoadBorders C (polyFile_of path country) = Inr borders \<longrightarrow>
            CalcCrossMwmTransitions C path mwmFile country st =
              ([FileRead (polyFile_of path country)], Inl (OnAssertFailed C))"
    by (simp add: CalcCrossMwmTransitions_def c)
  ultimately show ?thesis using c t by simp
qed

lemma without_car:
  "GetCarModel collaborators_without_car country = None"
  "OnAssertFailed collaborators_without_car = Terminated"
  "LoadBorders collaborators_without_car name = Inr [unit_square]"
  by (simp_all add: collaborators_without_car_def example_collaborators_def)

theorem missing_model_fails_construction_witness:
  "GetCarModel collaborators_without_car ''Country'' = None \<and>
   VehicleMaskBuilder_ctor collaborators_without_car ''Country'' = Inl Terminated \<and>
   BuildRoutingIndex collaborators_without_car ''tile.mwm'' ''Country'' =
     ([LogInfo ''Building routing index for''], Inl Terminated) \<and>
   CalcCrossMwmTransitions collaborators_without_car ''data'' ''tile.mwm'' ''Country'' ([], []) =
     ([FileRead ''data/borders/Country.poly''], Inl Terminated)"
proof -
  have h: "GetPedestrianModel collaborators_without_car ''Country'' = None \<or>
      GetBicycleModel collaborators_without_car ''Country'' = None \<or>
      GetCarModel collaborators_without_car ''Country'' = None"
    by (simp add: without_car)
  from missing_model_fails_construction [OF h, of "''tile.mwm''" "''data''" "''tile.mwm''" "([], [])"]
  show ?thesis
    by (simp add: without_car BuildRoutingIndex_def polyFile_of_def)
qed

text \<open>
  Claim C9, as stated, fails in the cross-tile scan: with no car model, the border file
  has been read when the construction of the mask builder fails.
\<close>

theorem missing_model_after_border_io_counterexample:
  "GetCarModel collaborators_without_car ''Country'' = None \<and>
   fst (CalcCrossMwmTransitions collaborators_without_car ''data'' ''tile.mwm'' ''Country''
          ([], [])) = [FileRead ''data/borders/Country.poly''] \<and>
   snd (CalcCrossMwmTransitions collaborators_without_car ''data'' ''tile.mwm'' ''Country''
          ([], [])) = Inl Terminated \<and>
   is_file_event (FileRead ''data/borders/Country.poly'')"
  by (simp add: CalcCrossMwmTransitions_def without_car polyFile_of_def is_file_event_def
      ctor_missing_model)

text \<open>
  Claim C8, as amended. The handler of \<open>BuildRoutingIndex\<close> takes a \<open>RootException\<close>
  raised anywhere in the block: the error is logged and the function returns \<open>false\<close>.
  When the block ends, its value is \<open>true\<close> and the function returns it. An exception of
  another kind, and the end of the process, are not caught. In particular a
  \<open>RootException\<close> raised by the feature reader, by the opening of the container, by the
  writer or by the serialiser gives \<open>false\<close>, and a run in which nothing is raised gives
  \<open>true\<close>.
\<close>

theorem BuildRoutingIndex_catches_RootException:
  "(\<forall>ev what. BuildRoutingIndex_try C filename country = (ev, Inl (Thrown (RootException what)))
      \<longrightarrow> BuildRoutingIndex C filename country =
            (LogInfo ''Building routing index for'' # ev @
               [LogError (''An exception happened while creating routing section:'' @ what)],
             Inr False)) \<and>
   (\<forall>ev. BuildRoutingIndex_try C filename country = (ev, Inr True)
      \<longrightarrow> BuildRoutingIndex C filename country =
            (LogInfo ''Building routing index for'' # ev, Inr True)) \<and>
   snd (BuildRoutingIndex_try C filename country) \<noteq> Inr False \<and>
   (\<forall>ev what. BuildRoutingIndex_try C filename country = (ev, Inl (Thrown (StdException what)))
      \<longrightarrow> BuildRoutingIndex C filename country =
            (LogInfo ''Building routing index for'' # ev, Inl (Thrown (StdException what)))) \<and>
   (\<forall>ev. BuildRoutingIndex_try C filename country = (ev, Inl Terminated)
      \<longrightarrow> BuildRoutingIndex C filename country =
            (LogInfo ''Building routing index for'' # ev, Inl Terminated)) \<and>
   (\<forall>P0 P what.
      Processor_ctor C country = Inr P0 \<and>
      ProcessFeatures C P0 (fst (ForEachFromDat C filename)) = Inr P \<and>
      (snd (ForEachFromDat C filename) = Some (RootException what) \<or>
       snd (ForEachFromDat C filename) = None \<and>
       (OpenContainer C filename = Some (RootException what) \<or>
        OpenContainer C filename = None \<and>
        (GetWriter C filename ROUTING_FILE_TAG = Some (RootException what) \<or>
         GetWriter C filename ROUTING_FILE_TAG = None \<and>
         SerializeIndexGraph C (BuildGraph P IndexGraph_default) (GetMasks P) =
           Inl (RootException what))))
      \<longrightarrow> snd (BuildRoutingIndex C filename country) = Inr False) \<and>
   (\<forall>P0 P sectionSize.
      Processor_ctor C country = Inr P0 \<and>
      ProcessFeatures C P0 (fst (ForEachFromDat C filename)) = Inr P \<and>
      snd (ForEachFromDat C filename) = None \<and>
      OpenContainer C filename = None \<and>
      GetWriter C filename ROUTING_FILE_TAG = None \<and>
      SerializeIndexGraph C (BuildGraph P IndexGraph_default) (GetMasks P) = Inr sectionSize
      \<longrightarrow> snd (BuildRoutingIndex C filename country) = Inr True)"
proof -
  have no_false: "snd (BuildRoutingIndex_try C filename country) \<noteq> Inr False"
    by (auto simp add: BuildRoutingIndex_try_def Let_def
        split: sum.splits prod.splits option.splits)
  have raised: "snd (BuildRoutingIndex C filename country) = Inr False"
    if "Processor_ctor C country = Inr P0"
      "ProcessFeatures C P0 (fst (ForEachFromDat C filename)) = Inr P"
      "snd (ForEachFromDat C filename) = Some (RootException what) \<or>
       snd (ForEachFromDat C filename) = None \<and>
       (OpenContainer C filename = Some (RootException what) \<or>
        OpenContainer C filename = None \<and>
        (GetWriter C filename ROUTING_FILE_TAG = Some (RootException what) \<or>
         GetWriter C filename ROUTING_FILE_TAG = None \<and>
         SerializeIndexGraph C (BuildGraph P IndexGraph_default) (GetMasks P) =
           Inl (RootException what)))" for P0 P what
    using that
    by (cases "ForEachFromDat C filename")
       (auto simp add: BuildRoutingIndex_def BuildRoutingIndex_try_def ProcessAllFeatures_def
        Let_def)
  have completed: "snd (BuildRoutingIndex C filename country) = Inr True"
    if "Processor_ctor C country = Inr P0"
      "ProcessFeatures C P0 (fst (ForEachFromDat C filename)) = Inr P"
      "snd (ForEachFromDat C filename) = None"
      "OpenContainer C filename = None"
      "GetWriter C filename ROUTING_FILE_TAG = None"
      "SerializeIndexGraph C (BuildGraph P IndexGraph_default) (GetMasks P) = Inr sectionSize"
    for P0 P sectionSize
    using that
    by (cases "ForEachFromDat C filename")
       (auto simp add: BuildRoutingIndex_def BuildRoutingIndex_try_def ProcessAllFeatures_def
        Let_def)
  have handler: "(\<forall>ev what. BuildRoutingIndex_try C filename country =
        (ev, Inl (Thrown (RootException what)))
      \<longrightarrow> BuildRoutingIndex C filename country =
            (LogInfo ''Building routing index for'' # ev @
               [LogError (''An exception happened while creating routing section:'' @ what)],
             Inr False)) \<and>
   (\<forall>ev. BuildRoutingIndex_try C filename country = (ev, Inr True)
      \<longrightarrow> BuildRoutingIndex C filename country =
            (LogInfo ''Building routing index for'' # ev, Inr True)) \<and>
   snd (BuildRoutingIndex_try C filename country) \<noteq> Inr False \<and>
   (\<forall>ev what. BuildRoutingIndex_try C filename country = (ev, Inl (Thrown (StdException what)))
      \<longrightarrow> BuildRoutingIndex C filename country =
            (LogInfo ''Building routing index for'' # ev, Inl (Thrown (StdException what)))) \<and>
   (\<forall>ev. BuildRoutingIndex_try C filename country = (ev, Inl Terminated)
      \<longrightarrow> BuildRoutingIndex C filename country =
            (LogInfo ''Building routing index for'' # ev, Inl Terminated))"
    using no_false by (simp add: BuildRoutingIndex_def)
  from raised completed have stages: "(\<forall>P0 P what.
      Processor_ctor C country = Inr P0 \<and>
      ProcessFeatures C P0 (fst (ForEachFromDat C filename)) = Inr P \<and>
      (snd (ForEachFromDat C filename) = Some (RootException what) \<or>
       snd (ForEachFromDat C filename) = None \<and>
       (OpenContainer C filename = Some (RootException what) \<or>
        OpenContainer C filename = None \<and>
        (GetWriter C filename ROUTING_FILE_TAG = Some (RootException what) \<or>
         GetWriter C filename ROUTING_FILE_TAG = None \<and>
         SerializeIndexGraph C (BuildGraph P IndexGraph_default) (GetMasks P) =
           Inl (RootException what))))
      \<longrightarrow> snd (BuildRoutingIndex C filename country) = Inr False) \<and>
   (\<forall>P0 P sectionSize.
      Processor_ctor C country = Inr P0 \<and>
      ProcessFeatures C P0 (fst (ForEachFromDat C filename)) = Inr P \<and>
      snd (ForEachFromDat C filename) = None \<and>
      OpenContainer C filename = None \<and>
      GetWriter C filename ROUTING_FILE_TAG = None \<and>
      SerializeIndexGraph C (BuildGraph P IndexGraph_default) (GetMasks P) = Inr sectionSize
      \<longrightarrow> snd (BuildRoutingIndex C filename country) = Inr True)"
    by blast
  from handler stages show ?thesis
    by (intro conjI) (elim conjE, assumption)+
qed

lemma write_error_try:
  "BuildRoutingIndex_try collaborators_write_error ''tile.mwm'' ''Country'' =
     ([FileRead ''tile.mwm'', FileOpen ''tile.mwm'', FileWrite ''tile.mwm''],
      Inl (Thrown (RootException ''Writer::WriteException'')))"
proof -
  have ctor: "Processor_ctor collaborators_write_error ''Country'' = Inr example_processor0"
    by (simp add: Processor_ctor_def VehicleMaskBuilder_ctor_def collaborators_write_error_def
        example_collaborators_def example_processor0_def example_maskBuilder_def)
  have masks: "CalcRoadMask collaborators_write_error example_maskBuilder feature_A = 7"
    "CalcRoadMask collaborators_write_error example_maskBuilder feature_B = 7"
    by (simp_all add: CalcRoadMask_def CalcMask_def collaborators_write_error_def
        example_collaborators_def example_maskBuilder_def example_model_def feature_A_def
        feature_B_def)
  have keys: "PointToInt64 collaborators_write_error = PointToInt64 example_collaborators"
    by (simp add: collaborators_write_error_def)
  have feat: "ForEachFromDat collaborators_write_error ''tile.mwm'' =
      ([(feature_A, 0), (feature_B, 1)], None)"
    by (simp add: collaborators_write_error_def example_collaborators_def)
  have run: "ProcessAllFeatures collaborators_write_error example_processor0 ''tile.mwm'' =
      ([FileRead ''tile.mwm''], Inr example_processor)"
    by (simp add: ProcessAllFeatures_def feat ProcessFeature_def example_processor0_def masks
        ProcessFeature_loop.simps example_counts keys example_keys checked_cast_def
        AddPoint_def example_processor_def)
  show ?thesis
    by (simp add: BuildRoutingIndex_try_def ctor run)
       (simp add: collaborators_write_error_def example_collaborators_def)
qed

lemma example_try:
  "BuildRoutingIndex_try example_collaborators ''tile.mwm'' ''Country'' =
     ([FileRead ''tile.mwm'', FileOpen ''tile.mwm'', FileWrite ''tile.mwm'',
       LogInfo ''Routing section created:''], Inr True)"
  by (simp add: BuildRoutingIndex_try_def example_ctor example_process)
     (simp add: example_collaborators_def)

lemma bad_alloc_try:
  "BuildRoutingIndex_try collaborators_bad_alloc ''tile.mwm'' ''Country'' =
     ([FileRead ''tile.mwm''], Inl (Thrown (StdException ''std::bad_alloc'')))"
proof -
  have ctor: "Processor_ctor collaborators_bad_alloc ''Country'' = Inr example_processor0"
    by (simp add: Processor_ctor_def VehicleMaskBuilder_ctor_def collaborators_bad_alloc_def
        example_collaborators_def example_processor0_def example_maskBuilder_def)
  have run: "ProcessAllFeatures collaborators_bad_alloc example_processor0 ''tile.mwm'' =
      ([FileRead ''tile.mwm''], Inl (Thrown (StdException ''std::bad_alloc'')))"
    by (simp add: ProcessAllFeatures_def collaborators_bad_alloc_def)
  show ?thesis
    by (simp add: BuildRoutingIndex_try_def ctor run)
qed

theorem BuildRoutingIndex_catches_RootException_witness:
  "BuildRoutingIndex_try collaborators_write_error ''tile.mwm'' ''Country'' =
     ([FileRead ''tile.mwm'', FileOpen ''tile.mwm'', FileWrite ''tile.mwm''],
      Inl (Thrown (RootException ''Writer::WriteException''))) \<and>
   BuildRoutingIndex collaborators_write_error ''tile.mwm'' ''Country'' =
     ([LogInfo ''Building routing index for'', FileRead ''tile.mwm'', FileOpen ''tile.mwm'',
       FileWrite ''tile.mwm'',
       LogError ''An exception happened while creating routing section:Writer::WriteException''],
      Inr False) \<and>
   BuildRoutingIndex_try example_collaborators ''tile.mwm'' ''Country'' =
     ([FileRead ''tile.mwm'', FileOpen ''tile.mwm'', FileWrite ''tile.mwm'',
       LogInfo ''Routing section created:''], Inr True) \<and>
   BuildRoutingIndex example_collaborators ''tile.mwm'' ''Country'' =
     ([LogInfo ''Building routing index for'', FileRead ''tile.mwm'', FileOpen ''tile.mwm'',
       FileWrite ''tile.mwm'', LogInfo ''Routing section created:''], Inr True)"
  using BuildRoutingIndex_catches_RootException
      [of collaborators_write_error "''tile.mwm''" "''Country''"]
    BuildRoutingIndex_catches_RootException
      [of example_collaborators "''tile.mwm''" "''Country''"]
  by (simp add: write_error_try example_try)

text \<open>
  Claim C8, as stated, fails for an exception outside the \<open>RootException\<close> family: raised
  by the feature reader, it leaves \<open>BuildRoutingIndex\<close>, which neither logs an error nor
  returns \<open>false\<close>.
\<close>

theorem BuildRoutingIndex_other_exception_counterexample:
  "snd (ForEachFromDat collaborators_bad_alloc ''tile.mwm'') =
     Some (StdException ''std::bad_alloc'') \<and>
   BuildRoutingIndex collaborators_bad_alloc ''tile.mwm'' ''Country'' =
     ([LogInfo ''Building routing index for'', FileRead ''tile.mwm''],
      Inl (Thrown (StdException ''std::bad_alloc''))) \<and>
   snd (BuildRoutingIndex collaborators_bad_alloc ''tile.mwm'' ''Country'') \<noteq> Inr False"
proof -
  have "snd (ForEachFromDat collaborators_bad_alloc ''tile.mwm'') =
      Some (StdException ''std::bad_alloc'')"
    by (simp add: collaborators_bad_alloc_def)
  then show ?thesis
    by (simp add: BuildRoutingIndex_def bad_alloc_try)
qed

section \<open>Leap weights\<close>

text \<open>
  The wave \<open>FillWeights\<close> runs is the wave of the specification, and the table after the
  loops over the enters and the exits is described through the weight it records for a pair
  of segments. The distance map is declared once, before the loop over the enters, so the
  wave from an enter is handed the map its predecessor left.
\<close>

lemma recorded_set_weight:
  "recorded_weight (set_weight e x w W) e' x' =
     (if e' = e \<and> x' = x then Some w else recorded_weight W e' x')"
  by (simp add: recorded_weight_def set_weight_def split: option.splits)

lemma recorded_exits_loop:
  "recorded_weight (exits_loop e dm xs W) e' x' =
     (if e' = e \<and> x' \<in> set xs \<and> dm x' \<noteq> None then dm x' else recorded_weight W e' x')"
proof (induction xs arbitrary: W)
  case Nil
  show ?case by simp
next
  case (Cons x xs)
  show ?case
    by (cases "dm x") (auto simp add: Cons.IH recorded_set_weight)
qed

lemma wave_from_claimed:
  "wave_from C graph enter distanceMap = claimed_wave C graph enter distanceMap"
proof -
  have "GetOutgoingEdgesList C \<lparr>m_graph = graph\<rparr> = (\<lambda>vertex. GetEdgeList C graph vertex True)"
    by (rule ext) (simp add: GetOutgoingEdgesList_def)
  moreover
  have "GetIngoingEdgesList C \<lparr>m_graph = graph\<rparr> = (\<lambda>vertex. GetEdgeList C graph vertex False)"
    by (rule ext) (simp add: GetIngoingEdgesList_def)
  moreover have "(\<lambda>vertex edge. GetWeight edge) = (\<lambda>(vertex :: Segment) edge. e_weight edge)"
    by (simp add: GetWeight_def)
  ultimately show ?thesis
    by (simp add: wave_from_def claimed_wave_def Let_def)
qed

text \<open>One turn of the loop over the enters.\<close>

lemma enters_loop_step:
  assumes "i < n"
  shows "enters_loop C g c n i st =
     enters_loop C g c n (i + 1)
       \<lparr>ls_weights = exits_loop (GetEnter c i)
            (claimed_wave C g (GetEnter c i) (ls_distanceMap st)) (GetExits c) (ls_weights st),
         ls_distanceMap = claimed_wave C g (GetEnter c i) (ls_distanceMap st),
         ls_log = (if i mod 10 = 0 \<and> i \<noteq> 0
                   then ls_log st @ [LogInfo ''Building leaps:''] else ls_log st)\<rparr>"
  using assms
  by (subst enters_loop.simps) (simp add: Let_def wave_from_claimed)

lemma enters_loop_stop:
  "\<not> i < n \<Longrightarrow> enters_loop C g c n i st = st"
  by (subst enters_loop.simps) simp

lemma recorded_enters_loop_any:
  "n = length (m_enters c) \<Longrightarrow>
   recorded_weight (ls_weights (enters_loop C g c n i st)) e x =
     (case (if x \<in> set (GetExits c)
            then claimed_weight
                   (zip (drop i (m_enters c))
                      (claimed_maps C g (drop i (m_enters c)) (ls_distanceMap st))) e x
            else None) of
        Some w \<Rightarrow> Some w
      | None \<Rightarrow> recorded_weight (ls_weights st) e x)"
proof (induction C g c n i st rule: enters_loop.induct)
  case (1 C g c n i st)
  show ?case
  proof (cases "i < n")
    case False
    with "1.prems" show ?thesis by (simp add: enters_loop_stop)
  next
    case True
    with "1.prems" have d: "drop i (m_enters c) = GetEnter c i # drop (i + 1) (m_enters c)"
      by (simp add: Cons_nth_drop_Suc GetEnter_def)
    note ih = "1.IH" [OF True refl refl refl refl "1.prems"]
    show ?thesis
      unfolding enters_loop_step [OF True] d
      using ih
      by (auto simp add: wave_from_claimed recorded_exits_loop split: option.splits)
  qed
qed

lemma recorded_leap_weights_any:
  "recorded_weight (leap_weights C graph connector) enter exit =
     (if exit \<in> set (GetExits connector)
      then claimed_weight
             (zip (GetEnters connector)
                (claimed_maps C graph (GetEnters connector) Map.empty)) enter exit
      else None)"
  using recorded_enters_loop_any [of "length (GetEnters connector)" connector C graph 0
      "\<lparr>ls_weights = Map.empty, ls_distanceMap = Map.empty, ls_log = []\<rparr>" enter exit]
  by (simp add: leap_weights_def GetEnters_def recorded_weight_def split: option.splits)

lemma recorded_other_enter:
  "n = length (m_enters c) \<Longrightarrow> e \<notin> set (drop i (m_enters c)) \<Longrightarrow>
   recorded_weight (ls_weights (enters_loop C g c n i st)) e x =
     recorded_weight (ls_weights st) e x"
proof (induction C g c n i st rule: enters_loop.induct)
  case (1 C g c n i st)
  show ?case
  proof (cases "i < n")
    case False
    then show ?thesis by (simp add: enters_loop_stop)
  next
    case True
    with "1.prems"(1) have d: "drop i (m_enters c) = m_enters c ! i # drop (i + 1) (m_enters c)"
      by (simp add: Cons_nth_drop_Suc)
    with "1.prems"(2) have ne: "e \<noteq> GetEnter c i" and rest: "e \<notin> set (drop (i + 1) (m_enters c))"
      by (simp_all add: GetEnter_def)
    note ih = "1.IH" [OF True refl refl refl refl "1.prems"(1) rest]
    show ?thesis
      unfolding enters_loop_step [OF True]
      using ih ne
      by (simp add: wave_from_claimed recorded_exits_loop)
  qed
qed

lemma recorded_nth_enter:
  "n = length (m_enters c) \<Longrightarrow> distinct (m_enters c) \<Longrightarrow> i \<le> j \<Longrightarrow> j < n \<Longrightarrow>
   recorded_weight (ls_weights (enters_loop C g c n i st)) (m_enters c ! j) x =
     (if x \<in> set (GetExits c) \<and>
         (claimed_maps C g (drop i (m_enters c)) (ls_distanceMap st) ! (j - i)) x \<noteq> None
      then (claimed_maps C g (drop i (m_enters c)) (ls_distanceMap st) ! (j - i)) x
      else recorded_weight (ls_weights st) (m_enters c ! j) x)"
proof (induction C g c n i st rule: enters_loop.induct)
  case (1 C g c n i st)
  from "1.prems" have True: "i < n" by simp
  with "1.prems"(1) have d: "drop i (m_enters c) = m_enters c ! i # drop (i + 1) (m_enters c)"
    by (simp add: Cons_nth_drop_Suc)
  define dm1 where "dm1 = claimed_wave C g (GetEnter c i) (ls_distanceMap st)"
  define st1 where "st1 =
       \<lparr>ls_weights = exits_loop (GetEnter c i) dm1 (GetExits c) (ls_weights st),
         ls_distanceMap = dm1,
         ls_log = (if i mod 10 = 0 \<and> i \<noteq> 0
                   then ls_log st @ [LogInfo ''Building leaps:''] else ls_log st)\<rparr>"
  have step: "enters_loop C g c n i st = enters_loop C g c n (i + 1) st1"
    unfolding st1_def dm1_def by (rule enters_loop_step [OF True])
  have maps: "claimed_maps C g (drop i (m_enters c)) (ls_distanceMap st) =
      dm1 # claimed_maps C g (drop (i + 1) (m_enters c)) dm1"
    by (simp add: d dm1_def GetEnter_def)
  show ?case
  proof (cases "j = i")
    case here: True
    from "1.prems"(1,2) True have "m_enters c ! i \<notin> set (drop (i + 1) (m_enters c))"
      by (metis d distinct.simps(2) distinct_drop)
    from recorded_other_enter [OF "1.prems"(1) this, of C g st1]
    have "recorded_weight (ls_weights (enters_loop C g c n (i + 1) st1)) (m_enters c ! i) x =
        recorded_weight (ls_weights st1) (m_enters c ! i) x" .
    then show ?thesis
      unfolding step maps here
      by (auto simp add: st1_def recorded_exits_loop GetEnter_def)
  next
    case later: False
    with "1.prems"(3) have le: "i + 1 \<le> j" by simp
    from later "1.prems" have ne: "m_enters c ! j \<noteq> GetEnter c i"
      by (simp add: GetEnter_def nth_eq_iff_index_eq)
    have ih: "recorded_weight (ls_weights (enters_loop C g c n (i + 1) st1)) (m_enters c ! j) x =
     (if x \<in> set (GetExits c) \<and>
         (claimed_maps C g (drop (i + 1) (m_enters c)) (ls_distanceMap st1) ! (j - (i + 1))) x
           \<noteq> None
      then (claimed_maps C g (drop (i + 1) (m_enters c)) (ls_distanceMap st1) ! (j - (i + 1))) x
      else recorded_weight (ls_weights st1) (m_enters c ! j) x)"
      by (rule "1.IH" [OF True refl refl refl refl "1.prems"(1,2) le "1.prems"(4),
            unfolded wave_from_claimed, folded dm1_def, folded st1_def])
    from le have idx: "j - i = Suc (j - (i + 1))" by simp
    have old: "recorded_weight (ls_weights st1) (m_enters c ! j) x =
        recorded_weight (ls_weights st) (m_enters c ! j) x"
      using ne by (simp add: st1_def recorded_exits_loop)
    have dm: "ls_distanceMap st1 = dm1" by (simp add: st1_def)
    show ?thesis
      unfolding step maps idx ih old dm by auto
  qed
qed

lemma recorded_leap_weights_nth:
  assumes "distinct (GetEnters connector)" and "i < length (GetEnters connector)"
  shows "recorded_weight (leap_weights C graph connector) (GetEnters connector ! i) exit =
     (if exit \<in> set (GetExits connector)
      then (claimed_maps C graph (GetEnters connector) Map.empty ! i) exit else None)"
  using recorded_nth_enter [of "length (m_enters connector)" connector 0 i C graph
      "\<lparr>ls_weights = Map.empty, ls_distanceMap = Map.empty, ls_log = []\<rparr>" exit] assms
  by (auto simp add: leap_weights_def GetEnters_def recorded_weight_def)

lemma recorded_leap_weights_other:
  assumes "enter \<notin> set (GetEnters connector)"
  shows "recorded_weight (leap_weights C graph connector) enter exit = None"
  using recorded_other_enter [of "length (m_enters connector)" connector enter 0 C graph
      "\<lparr>ls_weights = Map.empty, ls_distanceMap = Map.empty, ls_log = []\<rparr>" exit] assms
  by (simp add: leap_weights_def GetEnters_def recorded_weight_def)

lemma recorded_enters_loop_fresh:
  assumes fresh: "\<forall>enter distanceMap.
      claimed_wave C g enter distanceMap = claimed_wave C g enter Map.empty"
  shows "recorded_weight (ls_weights (enters_loop C g c n i st)) e x =
     (if (\<exists>j. i \<le> j \<and> j < n \<and> GetEnter c j = e) \<and> x \<in> set (GetExits c) \<and>
         claimed_wave C g e Map.empty x \<noteq> None
      then claimed_wave C g e Map.empty x else recorded_weight (ls_weights st) e x)"
  using fresh
proof (induction C g c n i st rule: enters_loop.induct)
  case (1 C g c n i st)
  note fresh = "1.prems"
  show ?case
  proof (cases "i < n")
    case False
    then have none: "\<not> (\<exists>j. i \<le> j \<and> j < n \<and> GetEnter c j = e)"
      by auto
    from False have "enters_loop C g c n i st = st"
      by (rule enters_loop_stop)
    then show ?thesis
      by (simp only: none) simp
  next
    case True
    define enter where "enter = GetEnter c i"
    define st1 where "st1 =
       \<lparr>ls_weights = exits_loop (GetEnter c i)
            (claimed_wave C g (GetEnter c i) (ls_distanceMap st)) (GetExits c) (ls_weights st),
         ls_distanceMap = claimed_wave C g (GetEnter c i) (ls_distanceMap st),
         ls_log = (if i mod 10 = 0 \<and> i \<noteq> 0
                   then ls_log st @ [LogInfo ''Building leaps:''] else ls_log st)\<rparr>"
    have step: "enters_loop C g c n i st = enters_loop C g c n (i + 1) st1"
      unfolding st1_def by (rule enters_loop_step [OF True])
    have dm: "claimed_wave C g (GetEnter c i) (ls_distanceMap st) =
        claimed_wave C g enter Map.empty"
      unfolding enter_def using fresh by blast
    define L where "L \<longleftrightarrow> (\<exists>j. i \<le> j \<and> j < n \<and> GetEnter c j = e)"
    define R where "R \<longleftrightarrow> (\<exists>j. i + 1 \<le> j \<and> j < n \<and> GetEnter c j = e)"
    have split: "L \<longleftrightarrow> GetEnter c i = e \<or> R"
    proof
      assume L
      then obtain j where j: "i \<le> j" "j < n" "GetEnter c j = e"
        unfolding L_def by blast
      show "GetEnter c i = e \<or> R"
      proof (cases "j = i")
        case True
        with j show ?thesis by simp
      next
        case False
        with j have "i + 1 \<le> j" by simp
        with j show ?thesis unfolding R_def by blast
      qed
    next
      assume "GetEnter c i = e \<or> R"
      then show L
      proof
        assume "GetEnter c i = e"
        with True show L unfolding L_def by blast
      next
        assume R
        then obtain j where "i + 1 \<le> j" "j < n" "GetEnter c j = e"
          unfolding R_def by blast
        then have "i \<le> j \<and> j < n \<and> GetEnter c j = e" by simp
        then show L unfolding L_def by blast
      qed
    qed
    have now: "recorded_weight (ls_weights st1) e x =
        (if e = enter \<and> x \<in> set (GetExits c) \<and> claimed_wave C g enter Map.empty x \<noteq> None
         then claimed_wave C g enter Map.empty x else recorded_weight (ls_weights st) e x)"
      by (auto simp add: st1_def recorded_exits_loop dm enter_def)
    have later: "recorded_weight (ls_weights (enters_loop C g c n (i + 1) st1)) e x =
        (if R \<and> x \<in> set (GetExits c) \<and> claimed_wave C g e Map.empty x \<noteq> None
         then claimed_wave C g e Map.empty x else recorded_weight (ls_weights st1) e x)"
      unfolding R_def
      by (rule "1.IH" [OF True refl refl refl refl fresh,
            unfolded wave_from_claimed, folded st1_def])
    have "recorded_weight (ls_weights (enters_loop C g c n i st)) e x =
        (if L \<and> x \<in> set (GetExits c) \<and> claimed_wave C g e Map.empty x \<noteq> None
         then claimed_wave C g e Map.empty x else recorded_weight (ls_weights st) e x)"
      unfolding step later now split
      by (auto simp add: enter_def)
    then show ?thesis
      by (simp add: L_def)
  qed
qed

lemma recorded_leap_weights_fresh:
  assumes "\<forall>enter distanceMap.
      claimed_wave C graph enter distanceMap = claimed_wave C graph enter Map.empty"
  shows "recorded_weight (leap_weights C graph connector) enter exit =
     (if enter \<in> set (GetEnters connector) \<and> exit \<in> set (GetExits connector)
      then claimed_wave C graph enter Map.empty exit else None)"
proof -
  have "(\<exists>j. 0 \<le> j \<and> j < length (GetEnters connector) \<and> GetEnter connector j = enter) \<longleftrightarrow>
      enter \<in> set (GetEnters connector)"
    by (auto simp add: GetEnter_def GetEnters_def in_set_conv_nth)
  then show ?thesis
    unfolding leap_weights_def recorded_enters_loop_fresh [OF assms]
    by (auto simp add: recorded_weight_def)
qed

lemma weights_lookup_recorded:
  "weights_lookup C weights enter exit =
     (case recorded_weight weights enter exit of None \<Rightarrow> kNoRoute C | Some w \<Rightarrow> w)"
  by (simp add: weights_lookup_def recorded_weight_def split: option.splits)

lemma length_AddToConnectors:
  "length (AddToConnectors C t j connectors) = length connectors"
proof (induction C t j connectors rule: AddToConnectors.induct)
  case (1 C t j connectors)
  show ?case
  proof (cases "j < length connectors")
    case True
    from "1.IH" [OF True refl] True show ?thesis
      by (simp add: AddToConnectors.simps [of C t j connectors])
  next
    case False
    then show ?thesis
      by (simp add: AddToConnectors.simps [of C t j connectors])
  qed
qed

lemma length_scan_loop:
  "scan_loop C borders mm f fid rm n i prev st = Inr st' \<Longrightarrow>
   length (snd st') = length (snd st)"
proof (induction C borders mm f fid rm n i prev st rule: scan_loop.induct)
  case (1 C borders mm f fid rm n i prev st)
  show ?case
  proof (cases "i < n")
    case False
    with "1.prems" show ?thesis
      by (simp add: scan_loop.simps [of C borders mm f fid rm n i prev st])
  next
    case True
    define curr where "curr = RegionsContain borders (GetPointAt f i)"
    show ?thesis
    proof (cases "curr = prev")
      case same: True
      have "scan_loop C borders mm f fid rm n (i + 1) prev st = Inr st'"
        using "1.prems" True same
        by (simp add: scan_loop.simps [of C borders mm f fid rm n i prev st] curr_def)
      from "1.IH"(1) [OF True curr_def same this] show ?thesis .
    next
      case diff: False
      from "1.prems" True diff obtain segmentIdx where
        cast: "asserted_cast C (i - 1) = Inr segmentIdx"
        by (cases "asserted_cast C (i - 1)")
           (simp_all add: scan_loop.simps [of C borders mm f fid rm n i prev st] curr_def)
      define oneWayMask where "oneWayMask = CalcOneWayMask C mm f"
      define transitions where "transitions = fst st @
                          [\<lparr>t_featureId = fid, t_segmentIdx = segmentIdx,
                            t_roadMask = rm, t_oneWayMask = oneWayMask,
                            t_forwardIsEnter = curr,
                            t_backPoint = GetPointAt f (i - 1),
                            t_frontPoint = GetPointAt f i\<rparr>]"
      define connectors where "connectors = AddToConnectors C (last transitions) 0 (snd st)"
      have step: "scan_loop C borders mm f fid rm n (i + 1) curr (transitions, connectors) =
          Inr st'"
        using "1.prems" True diff cast
        by (simp add: scan_loop.simps [of C borders mm f fid rm n i prev st]
            curr_def [symmetric] Let_def transitions_def connectors_def oneWayMask_def)
      from "1.IH"(2) [OF True curr_def diff cast oneWayMask_def transitions_def
          connectors_def step]
      show ?thesis
        by (simp add: connectors_def length_AddToConnectors)
    qed
  qed
qed

lemma length_scan_features:
  "scan_features C borders mm st fs = Inr st' \<Longrightarrow> length (snd st') = length (snd st)"
proof (induction fs arbitrary: st)
  case Nil
  then show ?case by simp
next
  case (Cons a fs)
  obtain f fid where a: "a = (f, fid)" by (cases a)
  from Cons.prems a obtain st1 where
    one: "scan_feature C borders mm st f fid = Inr st1" and
    rest: "scan_features C borders mm st1 fs = Inr st'"
    by (cases "scan_feature C borders mm st f fid") simp_all
  have "length (snd st1) = length (snd st)"
  proof (cases "CalcRoadMask C mm f = 0 \<or> GetPointsCount f = 0")
    case True
    with one show ?thesis
      by (auto simp add: scan_feature_def Let_def split: if_splits)
  next
    case False
    with one have "scan_loop C borders mm f fid (CalcRoadMask C mm f) (GetPointsCount f) 1
        (RegionsContain borders (GetPointAt f 0)) st = Inr st1"
      by (simp add: scan_feature_def Let_def)
    then show ?thesis by (rule length_scan_loop)
  qed
  with Cons.IH [OF rest] show ?case by simp
qed

lemma length_CalcCrossMwmTransitions:
  "CalcCrossMwmTransitions C path mwmFile country (transitions, connectors) =
     (ev, Inr (transitions', connectors')) \<Longrightarrow>
   length connectors' = length connectors"
  using length_scan_features [of C _ _ "(transitions, connectors)" _ "(transitions', connectors')"]
  by (auto simp add: CalcCrossMwmTransitions_def Let_def
      split: sum.splits prod.splits option.splits)

lemma write_cross_mwm_value:
  "snd (write_cross_mwm C mwmFile transitions connectors) = Inr r \<Longrightarrow>
   r = (transitions, connectors)"
  by (auto simp add: write_cross_mwm_def split: sum.splits option.splits)

lemma FillWeights_value:
  "snd (FillWeights C path mwmFile country connector) = Inr car \<Longrightarrow>
   \<exists>model graph. GetCarModel C country = Some model \<and>
     LoadIndexGraph C path mwmFile country model = Inr graph \<and>
     car = Connector_FillWeights (weights_lookup C (leap_weights C graph connector)) connector"
  by (auto simp add: FillWeights_def Let_def leap_weights_def
      split: option.splits sum.splits)

lemma BuildCrossMwmSection_car_only:
  assumes scan: "CalcCrossMwmTransitions C path mwmFile country
             ([], replicate VehicleType_Count CrossMwmConnector_default) =
           (ev, Inr (transitions, connectors))"
    and built: "snd (BuildCrossMwmSection C path mwmFile country) = Inr (transitions', connectors')"
  shows "transitions' = transitions \<and>
         length connectors = VehicleType_Count \<and>
         (\<exists>car. snd (FillWeights C path mwmFile country (connectors ! VehicleType_index Car)) =
                   Inr car \<and>
                connectors' = connectors[VehicleType_index Car := car])"
proof (cases "FillWeights C path mwmFile country (connectors ! VehicleType_index Car)")
  case (Pair ev3 r3)
  from length_CalcCrossMwmTransitions [OF scan]
  have len: "length connectors = VehicleType_Count"
    by simp
  show ?thesis
  proof (cases r3)
    case (Inl e)
    with Pair built scan show ?thesis
      by (simp add: BuildCrossMwmSection_def Let_def)
  next
    case (Inr car)
    obtain ev4 r4 where w: "write_cross_mwm C mwmFile transitions
        (connectors[VehicleType_index Car := car]) = (ev4, r4)"
      by (cases "write_cross_mwm C mwmFile transitions (connectors[VehicleType_index Car := car])")
    with Inr Pair built scan have "r4 = Inr (transitions', connectors')"
      by (simp add: BuildCrossMwmSection_def Let_def)
    with w write_cross_mwm_value [of C mwmFile transitions
        "connectors[VehicleType_index Car := car]" "(transitions', connectors')"]
    have "(transitions', connectors') = (transitions, connectors[VehicleType_index Car := car])"
      by simp
    with Inr Pair len show ?thesis by simp
  qed
qed

text \<open>
  Claim C2. For every enter \<open>e\<close> of the connector, \<open>FillWeights\<close> runs the wave algorithm
  from \<open>e\<close> over the outgoing edge lists of the graph, with no early stop and the weight
  of an edge as its cost. The table records for a segment \<open>e\<close> and an exit \<open>x\<close> the
  distance that the last wave from \<open>e\<close> which reached \<open>x\<close> left at \<open>x\<close>, and nothing
  when no wave from \<open>e\<close> reached \<open>x\<close>. With distinct enters, the table records for the
  \<open>i\<close>-th enter and an exit \<open>x\<close> the distance the \<open>i\<close>-th of these waves left at \<open>x\<close>,
  exactly when that wave reached \<open>x\<close>; it records nothing for a segment that is not an
  enter, nor for one that is not an exit. When the wave does not depend on the map it is
  handed, the recorded weight of an enter and an exit is the distance of the wave from that
  enter on the empty map. The function handed to the connector answers the recorded
  weight, and the no-route sentinel for every pair without one. \<open>BuildCrossMwmSection\<close>
  runs this for the connector of the car alone: the transitions and the connectors of the
  other vehicle types are serialised as the scan left them.
\<close>

theorem leap_weights_for_the_car_connector:
  "(\<forall>enter distanceMap. wave_from C graph enter distanceMap =
       PropagateWave C (\<lambda>vertex. GetEdgeList C graph vertex True)
         (\<lambda>vertex. GetEdgeList C graph vertex False) enter (\<lambda>vertex. False)
         (\<lambda>vertex edge. e_weight edge) distanceMap) \<and>
   (\<forall>enter exit. recorded_weight (leap_weights C graph connector) enter exit =
      (if exit \<in> set (GetExits connector)
       then claimed_weight
              (zip (GetEnters connector)
                 (claimed_maps C graph (GetEnters connector) Map.empty)) enter exit
       else None)) \<and>
   (distinct (GetEnters connector) \<longrightarrow>
      (\<forall>i exit. i < length (GetEnters connector) \<longrightarrow>
         recorded_weight (leap_weights C graph connector) (GetEnters connector ! i) exit =
           (if exit \<in> set (GetExits connector)
            then (claimed_maps C graph (GetEnters connector) Map.empty ! i) exit
            else None))) \<and>
   (\<forall>enter exit. enter \<notin> set (GetEnters connector) \<longrightarrow>
      recorded_weight (leap_weights C graph connector) enter exit = None) \<and>
   ((\<forall>enter distanceMap.
        claimed_wave C graph enter distanceMap = claimed_wave C graph enter Map.empty) \<longrightarrow>
      (\<forall>enter exit. recorded_weight (leap_weights C graph connector) enter exit =
         (if enter \<in> set (GetEnters connector) \<and> exit \<in> set (GetExits connector)
          then PropagateWave C (\<lambda>vertex. GetEdgeList C graph vertex True)
                 (\<lambda>vertex. GetEdgeList C graph vertex False) enter (\<lambda>vertex. False)
                 (\<lambda>vertex edge. e_weight edge) Map.empty exit
          else None))) \<and>
   (\<forall>enter exit. weights_lookup C (leap_weights C graph connector) enter exit =
       (case recorded_weight (leap_weights C graph connector) enter exit of
          Some w \<Rightarrow> w | None \<Rightarrow> kNoRoute C)) \<and>
   (\<forall>model. GetCarModel C country = Some model \<and>
       LoadIndexGraph C path mwmFile country model = Inr graph \<longrightarrow>
       snd (FillWeights C path mwmFile country connector) =
         Inr (Connector_FillWeights (weights_lookup C (leap_weights C graph connector))
                connector)) \<and>
   (\<forall>ev transitions connectors transitions' connectors'.
       CalcCrossMwmTransitions C path mwmFile country
         ([], replicate VehicleType_Count CrossMwmConnector_default) =
         (ev, Inr (transitions, connectors)) \<and>
       snd (BuildCrossMwmSection C path mwmFile country) = Inr (transitions', connectors') \<longrightarrow>
       transitions' = transitions \<and>
       length connectors = VehicleType_Count \<and>
       length connectors' = VehicleType_Count \<and>
       (\<forall>j. j < VehicleType_Count \<and> j \<noteq> VehicleType_index Car \<longrightarrow>
          connectors' ! j = connectors ! j) \<and>
       (\<exists>model g. GetCarModel C country = Some model \<and>
          LoadIndexGraph C path mwmFile country model = Inr g \<and>
          connectors' ! VehicleType_index Car =
            Connector_FillWeights
              (weights_lookup C (leap_weights C g (connectors ! VehicleType_index Car)))
              (connectors ! VehicleType_index Car)))"
proof (intro conjI allI impI)
  fix enter distanceMap
  show "wave_from C graph enter distanceMap =
       PropagateWave C (\<lambda>vertex. GetEdgeList C graph vertex True)
         (\<lambda>vertex. GetEdgeList C graph vertex False) enter (\<lambda>vertex. False)
         (\<lambda>vertex edge. e_weight edge) distanceMap"
    by (simp add: wave_from_claimed claimed_wave_def)
next
  fix enter exit
  show "recorded_weight (leap_weights C graph connector) enter exit =
      (if exit \<in> set (GetExits connector)
       then claimed_weight
              (zip (GetEnters connector)
                 (claimed_maps C graph (GetEnters connector) Map.empty)) enter exit
       else None)"
    by (rule recorded_leap_weights_any)
next
  fix i exit
  assume "distinct (GetEnters connector)" and "i < length (GetEnters connector)"
  then show "recorded_weight (leap_weights C graph connector) (GetEnters connector ! i) exit =
           (if exit \<in> set (GetExits connector)
            then (claimed_maps C graph (GetEnters connector) Map.empty ! i) exit
            else None)"
    by (rule recorded_leap_weights_nth)
next
  fix enter exit
  assume "enter \<notin> set (GetEnters connector)"
  then show "recorded_weight (leap_weights C graph connector) enter exit = None"
    by (rule recorded_leap_weights_other)
next
  fix enter exit
  assume "\<forall>enter distanceMap.
        claimed_wave C graph enter distanceMap = claimed_wave C graph enter Map.empty"
  from recorded_leap_weights_fresh [OF this]
  show "recorded_weight (leap_weights C graph connector) enter exit =
         (if enter \<in> set (GetEnters connector) \<and> exit \<in> set (GetExits connector)
          then PropagateWave C (\<lambda>vertex. GetEdgeList C graph vertex True)
                 (\<lambda>vertex. GetEdgeList C graph vertex False) enter (\<lambda>vertex. False)
                 (\<lambda>vertex edge. e_weight edge) Map.empty exit
          else None)"
    by (simp add: claimed_wave_def)
next
  fix enter exit
  show "weights_lookup C (leap_weights C graph connector) enter exit =
       (case recorded_weight (leap_weights C graph connector) enter exit of
          Some w \<Rightarrow> w | None \<Rightarrow> kNoRoute C)"
    by (simp add: weights_lookup_recorded split: option.splits)
next
  fix model
  assume "GetCarModel C country = Some model \<and>
       LoadIndexGraph C path mwmFile country model = Inr graph"
  then show "snd (FillWeights C path mwmFile country connector) =
         Inr (Connector_FillWeights (weights_lookup C (leap_weights C graph connector))
                connector)"
    by (simp add: FillWeights_def Let_def leap_weights_def)
next
  fix ev transitions connectors transitions' connectors'
  assume "CalcCrossMwmTransitions C path mwmFile country
         ([], replicate VehicleType_Count CrossMwmConnector_default) =
         (ev, Inr (transitions, connectors)) \<and>
       snd (BuildCrossMwmSection C path mwmFile country) = Inr (transitions', connectors')"
  then have a: "CalcCrossMwmTransitions C path mwmFile country
         ([], replicate VehicleType_Count CrossMwmConnector_default) =
         (ev, Inr (transitions, connectors))"
    and b: "snd (BuildCrossMwmSection C path mwmFile country) = Inr (transitions', connectors')"
    by simp_all
  from BuildCrossMwmSection_car_only [OF a b] obtain car where
    t: "transitions' = transitions" and len: "length connectors = VehicleType_Count" and
    fill: "snd (FillWeights C path mwmFile country (connectors ! VehicleType_index Car)) =
      Inr car" and
    upd: "connectors' = connectors[VehicleType_index Car := car]"
    by blast
  from FillWeights_value [OF fill] obtain model g where
    car: "GetCarModel C country = Some model"
      "LoadIndexGraph C path mwmFile country model = Inr g"
      "car = Connector_FillWeights
         (weights_lookup C (leap_weights C g (connectors ! VehicleType_index Car)))
         (connectors ! VehicleType_index Car)"
    by blast
  show "transitions' = transitions" by (rule t)
  show "length connectors = VehicleType_Count" by (rule len)
  show "length connectors' = VehicleType_Count" using len upd by simp
  show "\<exists>model g. GetCarModel C country = Some model \<and>
          LoadIndexGraph C path mwmFile country model = Inr g \<and>
          connectors' ! VehicleType_index Car =
            Connector_FillWeights
              (weights_lookup C (leap_weights C g (connectors ! VehicleType_index Car)))
              (connectors ! VehicleType_index Car)"
    using car upd len by (auto simp add: VehicleType_Count_def)
  fix j
  assume "j < VehicleType_Count \<and> j \<noteq> VehicleType_index Car"
  then show "connectors' ! j = connectors ! j"
    using upd by simp
qed

text \<open>
  The example: the wave from the enter reaches the first exit of the connector at distance
  \<open>100\<close> and not the second; the tile \<open>through.mwm\<close> gives every vehicle type one enter and
  one exit, and only the connector of the car is given weights.
\<close>

lemma example_wave:
  "PropagateWave example_collaborators
     (\<lambda>vertex. GetEdgeList example_collaborators IndexGraph_default vertex True)
     (\<lambda>vertex. GetEdgeList example_collaborators IndexGraph_default vertex False)
     \<lparr>s_featureId = 7, s_segmentIdx = 0, s_forward = True\<rparr> (\<lambda>vertex. False)
     (\<lambda>vertex edge. e_weight edge) distanceMap =
   [\<lparr>s_featureId = 7, s_segmentIdx = 0, s_forward = True\<rparr> \<mapsto> 0,
    \<lparr>s_featureId = 7, s_segmentIdx = 1, s_forward = True\<rparr> \<mapsto> 100]"
  by (auto simp add: example_collaborators_def)

lemma example_wave_fresh:
  "\<forall>enter distanceMap.
     claimed_wave example_collaborators IndexGraph_default enter distanceMap =
     claimed_wave example_collaborators IndexGraph_default enter Map.empty"
  by (simp add: claimed_wave_def example_collaborators_def)

lemma example_fill_inputs:
  "GetCarModel example_collaborators country = Some example_model"
  "LoadIndexGraph example_collaborators path mwmFile country model = Inr IndexGraph_default"
  "kNoRoute example_collaborators = - 1"
  by (simp_all add: example_collaborators_def)

lemma example_members:
  "GetEnters example_connector = [\<lparr>s_featureId = 7, s_segmentIdx = 0, s_forward = True\<rparr>]"
  "GetExits example_connector =
     [\<lparr>s_featureId = 7, s_segmentIdx = 1, s_forward = True\<rparr>,
      \<lparr>s_featureId = 9, s_segmentIdx = 0, s_forward = True\<rparr>]"
  "GetEnters through_connector = [\<lparr>s_featureId = 7, s_segmentIdx = 0, s_forward = True\<rparr>]"
  "GetExits through_connector = [\<lparr>s_featureId = 7, s_segmentIdx = 1, s_forward = True\<rparr>]"
  by (simp_all add: GetEnters_def GetExits_def example_connector_def through_connector_def)

lemma through_masks:
  "CalcRoadMask example_collaborators example_maskBuilder feature_through = 7"
  "CalcOneWayMask example_collaborators example_maskBuilder feature_through = 0"
  by (simp_all add: CalcRoadMask_def CalcOneWayMask_def CalcMask_def example_collaborators_def
      example_maskBuilder_def example_model_def feature_through_def)

lemma through_points:
  "GetPointAt feature_through 0 = \<lparr>px = 1 / 2, py = - 1 / 10\<rparr>"
  "GetPointAt feature_through (Suc 0) = \<lparr>px = 1 / 2, py = 1 / 2\<rparr>"
  "GetPointAt feature_through (Suc (Suc 0)) = \<lparr>px = 1 / 2, py = 11 / 10\<rparr>"
  by (simp_all add: GetPointAt_def feature_through_def)

lemma through_contains:
  "\<not> RegionsContain [unit_square] \<lparr>px = 1 / 2, py = - (1 / 10)\<rparr>"
  "RegionsContain [unit_square] \<lparr>px = 1 / 2, py = 1 / 2\<rparr>"
  "\<not> RegionsContain [unit_square] \<lparr>px = 1 / 2, py = 11 / 10\<rparr>"
  by (simp_all add: RegionsContain_def unit_square_def)

lemma through_connectors:
  "AddToConnectors example_collaborators through_exit 0
     (AddToConnectors example_collaborators through_enter 0
        (replicate 3 CrossMwmConnector_default)) =
   replicate 3 through_connector"
  by (simp add: AddToConnectors.simps numeral_3_eq_3 example_collaborators_def
      through_enter_def through_exit_def CrossMwmConnector_default_def through_connector_def)

lemma through_scan_feature:
  "scan_feature example_collaborators [unit_square] example_maskBuilder
     ([], replicate 3 CrossMwmConnector_default) feature_through 7 =
   Inr ([through_enter, through_exit], replicate 3 through_connector)"
proof -
  have n: "GetPointsCount feature_through = Suc (Suc (Suc 0))"
    by (simp add: GetPointsCount_def feature_through_def)
  have t: "\<lparr>t_featureId = 7, t_segmentIdx = 0, t_roadMask = 7, t_oneWayMask = 0,
      t_forwardIsEnter = True, t_backPoint = \<lparr>px = 1 / 2, py = - (1 / 10)\<rparr>,
      t_frontPoint = \<lparr>px = 1 / 2, py = 1 / 2\<rparr>\<rparr> = through_enter"
    "\<lparr>t_featureId = 7, t_segmentIdx = 1, t_roadMask = 7, t_oneWayMask = 0,
      t_forwardIsEnter = False, t_backPoint = \<lparr>px = 1 / 2, py = 1 / 2\<rparr>,
      t_frontPoint = \<lparr>px = 1 / 2, py = 11 / 10\<rparr>\<rparr> = through_exit"
    by (simp_all add: through_enter_def through_exit_def)
  have third: "scan_loop example_collaborators [unit_square] example_maskBuilder
      feature_through 7 7 (Suc (Suc (Suc 0))) (Suc (Suc (Suc 0))) prevPointIn st = Inr st"
    for prevPointIn st
    by (simp add: scan_loop.simps)
  have second: "scan_loop example_collaborators [unit_square] example_maskBuilder
      feature_through 7 7 (Suc (Suc (Suc 0))) (Suc (Suc 0)) True
      ([through_enter],
       AddToConnectors example_collaborators through_enter 0
         (replicate 3 CrossMwmConnector_default)) =
      Inr ([through_enter, through_exit], replicate 3 through_connector)"
    by (subst scan_loop.simps)
       (simp add: through_points through_contains asserted_cast_def through_masks t third
          through_connectors Let_def)
  have first: "scan_loop example_collaborators [unit_square] example_maskBuilder
      feature_through 7 7 (Suc (Suc (Suc 0))) (Suc 0) False
      ([], replicate 3 CrossMwmConnector_default) =
      Inr ([through_enter, through_exit], replicate 3 through_connector)"
    by (subst scan_loop.simps)
       (simp add: through_points through_contains asserted_cast_def through_masks t second
          Let_def)
  show ?thesis
    by (simp add: scan_feature_def through_masks n through_points through_contains first)
qed

lemma through_transitions:
  "CalcCrossMwmTransitions example_collaborators ''data'' ''through.mwm'' ''Country''
     ([], replicate VehicleType_Count CrossMwmConnector_default) =
   ([FileRead ''data/borders/Country.poly'', FileRead ''through.mwm''],
    Inr ([through_enter, through_exit], replicate 3 through_connector))"
proof -
  have b: "LoadBorders example_collaborators (polyFile_of ''data'' ''Country'') =
      Inr [unit_square]"
    and f: "ForEachFromDat example_collaborators ''through.mwm'' =
      ([(feature_through, 7)], None)"
    and m: "VehicleMaskBuilder_ctor example_collaborators ''Country'' = Inr example_maskBuilder"
    by (simp_all add: example_collaborators_def VehicleMaskBuilder_ctor_def
        example_maskBuilder_def)
  show ?thesis
    by (simp add: CalcCrossMwmTransitions_def b f m VehicleType_Count_def
        through_scan_feature)
       (simp add: polyFile_of_def)
qed

lemma through_section:
  "snd (BuildCrossMwmSection example_collaborators ''data'' ''through.mwm'' ''Country'') =
   Inr ([through_enter, through_exit],
        [through_connector, through_connector,
         Connector_FillWeights
           (weights_lookup example_collaborators
              (leap_weights example_collaborators IndexGraph_default through_connector))
           through_connector])"
proof -
  have "snd (FillWeights example_collaborators ''data'' ''through.mwm'' ''Country''
      through_connector) =
      Inr (Connector_FillWeights
             (weights_lookup example_collaborators
                (leap_weights example_collaborators IndexGraph_default through_connector))
             through_connector)"
    by (simp add: FillWeights_def example_fill_inputs Let_def leap_weights_def)
  then obtain ev where fill: "FillWeights example_collaborators ''data'' ''through.mwm''
      ''Country'' through_connector =
      (ev, Inr (Connector_FillWeights
             (weights_lookup example_collaborators
                (leap_weights example_collaborators IndexGraph_default through_connector))
             through_connector))"
    by (cases "FillWeights example_collaborators ''data'' ''through.mwm'' ''Country''
      through_connector") simp
  have w: "snd (write_cross_mwm example_collaborators ''through.mwm'' ts cs) = Inr (ts, cs)"
    for ts cs
    by (simp add: write_cross_mwm_def example_collaborators_def)
  show ?thesis
    by (simp add: BuildCrossMwmSection_def through_transitions Let_def numeral_3_eq_3 fill
        split_beta w)
qed

theorem leap_weights_for_the_car_connector_witness:
  "wave_from example_collaborators IndexGraph_default
     \<lparr>s_featureId = 7, s_segmentIdx = 0, s_forward = True\<rparr>
     [\<lparr>s_featureId = 9, s_segmentIdx = 0, s_forward = True\<rparr> \<mapsto> 5] =
   [\<lparr>s_featureId = 7, s_segmentIdx = 0, s_forward = True\<rparr> \<mapsto> 0,
    \<lparr>s_featureId = 7, s_segmentIdx = 1, s_forward = True\<rparr> \<mapsto> 100] \<and>
   distinct (GetEnters example_connector) \<and>
   0 < length (GetEnters example_connector) \<and>
   (claimed_maps example_collaborators IndexGraph_default (GetEnters example_connector)
      Map.empty ! 0) \<lparr>s_featureId = 7, s_segmentIdx = 1, s_forward = True\<rparr> = Some 100 \<and>
   claimed_weight
     (zip (GetEnters example_connector)
        (claimed_maps example_collaborators IndexGraph_default (GetEnters example_connector)
           Map.empty))
     \<lparr>s_featureId = 7, s_segmentIdx = 0, s_forward = True\<rparr>
     \<lparr>s_featureId = 7, s_segmentIdx = 1, s_forward = True\<rparr> = Some 100 \<and>
   recorded_weight (leap_weights example_collaborators IndexGraph_default example_connector)
     \<lparr>s_featureId = 7, s_segmentIdx = 0, s_forward = True\<rparr>
     \<lparr>s_featureId = 7, s_segmentIdx = 1, s_forward = True\<rparr> = Some 100 \<and>
   recorded_weight (leap_weights example_collaborators IndexGraph_default example_connector)
     \<lparr>s_featureId = 7, s_segmentIdx = 0, s_forward = True\<rparr>
     \<lparr>s_featureId = 9, s_segmentIdx = 0, s_forward = True\<rparr> = None \<and>
   recorded_weight (leap_weights example_collaborators IndexGraph_default example_connector)
     \<lparr>s_featureId = 7, s_segmentIdx = 1, s_forward = True\<rparr>
     \<lparr>s_featureId = 7, s_segmentIdx = 1, s_forward = True\<rparr> = None \<and>
   weights_lookup example_collaborators
     (leap_weights example_collaborators IndexGraph_default example_connector)
     \<lparr>s_featureId = 7, s_segmentIdx = 0, s_forward = True\<rparr>
     \<lparr>s_featureId = 7, s_segmentIdx = 1, s_forward = True\<rparr> = 100 \<and>
   weights_lookup example_collaborators
     (leap_weights example_collaborators IndexGraph_default example_connector)
     \<lparr>s_featureId = 7, s_segmentIdx = 0, s_forward = True\<rparr>
     \<lparr>s_featureId = 9, s_segmentIdx = 0, s_forward = True\<rparr> = - 1 \<and>
   snd (FillWeights example_collaborators ''data'' ''tile.mwm'' ''Country'' example_connector) =
     Inr (Connector_FillWeights
            (weights_lookup example_collaborators
               (leap_weights example_collaborators IndexGraph_default example_connector))
            example_connector) \<and>
   CalcCrossMwmTransitions example_collaborators ''data'' ''through.mwm'' ''Country''
     ([], replicate VehicleType_Count CrossMwmConnector_default) =
     ([FileRead ''data/borders/Country.poly'', FileRead ''through.mwm''],
      Inr ([through_enter, through_exit],
           [through_connector, through_connector, through_connector])) \<and>
   snd (BuildCrossMwmSection example_collaborators ''data'' ''through.mwm'' ''Country'') =
     Inr ([through_enter, through_exit],
          [through_connector, through_connector,
           Connector_FillWeights
             (weights_lookup example_collaborators
                (leap_weights example_collaborators IndexGraph_default through_connector))
             through_connector]) \<and>
   m_weights through_connector
     (\<lparr>s_featureId = 7, s_segmentIdx = 0, s_forward = True\<rparr>,
      \<lparr>s_featureId = 7, s_segmentIdx = 1, s_forward = True\<rparr>) = None \<and>
   m_weights
     (Connector_FillWeights
        (weights_lookup example_collaborators
           (leap_weights example_collaborators IndexGraph_default through_connector))
        through_connector)
     (\<lparr>s_featureId = 7, s_segmentIdx = 0, s_forward = True\<rparr>,
      \<lparr>s_featureId = 7, s_segmentIdx = 1, s_forward = True\<rparr>) = Some 100"
proof -
  note t = leap_weights_for_the_car_connector [where C = example_collaborators
      and graph = IndexGraph_default and connector = example_connector
      and country = "''Country''" and path = "''data''" and mwmFile = "''tile.mwm''"]
  note u = leap_weights_for_the_car_connector [where C = example_collaborators
      and graph = IndexGraph_default and connector = through_connector
      and country = "''Country''" and path = "''data''" and mwmFile = "''through.mwm''"]
  note wave_eq = t [THEN conjunct1, rule_format]
  note any = t [THEN conjunct2, THEN conjunct1, rule_format]
  note nth = t [THEN conjunct2, THEN conjunct2, THEN conjunct1, rule_format]
  note other = t [THEN conjunct2, THEN conjunct2, THEN conjunct2, THEN conjunct1, rule_format]
  note lookup = t [THEN conjunct2, THEN conjunct2, THEN conjunct2, THEN conjunct2,
      THEN conjunct2, THEN conjunct1, rule_format]
  note filled = t [THEN conjunct2, THEN conjunct2, THEN conjunct2, THEN conjunct2,
      THEN conjunct2, THEN conjunct2, THEN conjunct1, rule_format]
  note fresh = u [THEN conjunct2, THEN conjunct2, THEN conjunct2, THEN conjunct2,
      THEN conjunct1, rule_format]
  note lookup' = u [THEN conjunct2, THEN conjunct2, THEN conjunct2, THEN conjunct2,
      THEN conjunct2, THEN conjunct1, rule_format]
  note car_only = u [THEN conjunct2, THEN conjunct2, THEN conjunct2, THEN conjunct2,
      THEN conjunct2, THEN conjunct2, THEN conjunct2, rule_format]
  have wave: "wave_from example_collaborators IndexGraph_default
     \<lparr>s_featureId = 7, s_segmentIdx = 0, s_forward = True\<rparr>
     [\<lparr>s_featureId = 9, s_segmentIdx = 0, s_forward = True\<rparr> \<mapsto> 5] =
   [\<lparr>s_featureId = 7, s_segmentIdx = 0, s_forward = True\<rparr> \<mapsto> 0,
    \<lparr>s_featureId = 7, s_segmentIdx = 1, s_forward = True\<rparr> \<mapsto> 100]"
    unfolding wave_eq by (rule example_wave)
  have maps: "(claimed_maps example_collaborators IndexGraph_default
      (GetEnters example_connector) Map.empty ! 0) =
      [\<lparr>s_featureId = 7, s_segmentIdx = 0, s_forward = True\<rparr> \<mapsto> 0,
       \<lparr>s_featureId = 7, s_segmentIdx = 1, s_forward = True\<rparr> \<mapsto> 100]"
    by (simp add: example_members claimed_wave_def example_wave del: fun_upd_apply)
  have r1: "recorded_weight
     (leap_weights example_collaborators IndexGraph_default example_connector)
     \<lparr>s_featureId = 7, s_segmentIdx = 0, s_forward = True\<rparr> exit =
     (if exit \<in> set (GetExits example_connector)
      then [\<lparr>s_featureId = 7, s_segmentIdx = 0, s_forward = True\<rparr> \<mapsto> 0,
            \<lparr>s_featureId = 7, s_segmentIdx = 1, s_forward = True\<rparr> \<mapsto> 100] exit
      else None)" for exit
    using nth [of 0 exit] unfolding maps by (simp add: example_members)
  have r2: "recorded_weight
     (leap_weights example_collaborators IndexGraph_default example_connector)
     \<lparr>s_featureId = 7, s_segmentIdx = 1, s_forward = True\<rparr> exit = None" for exit
    by (rule other) (simp add: example_members)
  have fill:
    "snd (FillWeights example_collaborators ''data'' ''tile.mwm'' ''Country'' example_connector) =
     Inr (Connector_FillWeights
            (weights_lookup example_collaborators
               (leap_weights example_collaborators IndexGraph_default example_connector))
            example_connector)"
    by (rule filled) (simp add: example_fill_inputs)
  have car: "m_weights
     (Connector_FillWeights
        (weights_lookup example_collaborators
           (leap_weights example_collaborators IndexGraph_default through_connector))
        through_connector)
     (\<lparr>s_featureId = 7, s_segmentIdx = 0, s_forward = True\<rparr>,
      \<lparr>s_featureId = 7, s_segmentIdx = 1, s_forward = True\<rparr>) = Some 100"
    by (simp add: Connector_FillWeights_def lookup' fresh [OF example_wave_fresh [rule_format]]
          example_members example_wave)
       (simp add: through_connector_def)
  have first_map: "claimed_wave example_collaborators IndexGraph_default
      \<lparr>s_featureId = 7, s_segmentIdx = 0, s_forward = True\<rparr> distanceMap =
      [\<lparr>s_featureId = 7, s_segmentIdx = 0, s_forward = True\<rparr> \<mapsto> 0,
       \<lparr>s_featureId = 7, s_segmentIdx = 1, s_forward = True\<rparr> \<mapsto> 100]" for distanceMap
    unfolding claimed_wave_def by (rule example_wave)
  from car_only [OF conjI [OF through_transitions through_section]]
  have "length (replicate 3 through_connector) = VehicleType_Count"
    by simp
  with through_transitions have scanned:
    "CalcCrossMwmTransitions example_collaborators ''data'' ''through.mwm'' ''Country''
       ([], replicate VehicleType_Count CrossMwmConnector_default) =
     ([FileRead ''data/borders/Country.poly'', FileRead ''through.mwm''],
      Inr ([through_enter, through_exit],
           [through_connector, through_connector, through_connector]))"
    by (simp add: numeral_3_eq_3)
  show ?thesis
    by (simp add: wave first_map r1 r2 lookup example_members example_fill_inputs fill
        scanned through_section car)
       (simp add: through_connector_def)
qed

end
